theory Spec2Isabelle
  imports Complex_Main
begin

section \<open>Data model\<close>

text \<open>
  Embedding of \<^verbatim>\<open>graphgpt/model/GraphLlama.py\<close>.
  A two-dimensional float tensor of shape \<open>[n, d]\<close> is the list of its \<open>n\<close> rows, a row
  being the list of its \<open>d\<close> entries. An entry is a floating-point value: a finite
  number, plus or minus infinity, or not-a-number. The special values follow IEEE 754
  (\<open>0 * inf\<close> and \<open>inf - inf\<close> are \<open>nan\<close>, \<open>nan\<close> absorbs); finite values are
  real numbers, so rounding and overflow are not modelled, and \<open>-0.0\<close> is \<open>0.0\<close>.
\<close>

datatype fl = Finite real | PInf | NInf | NaN

instantiation fl :: "{comm_monoid_add, times, numeral}"
begin

definition zero_fl :: fl where
  "zero_fl = Finite 0"

definition one_fl :: fl where
  "one_fl = Finite 1"

definition plus_fl :: "fl \<Rightarrow> fl \<Rightarrow> fl" where
  "plus_fl a b =
     (case a of
        NaN \<Rightarrow> NaN
      | Finite x \<Rightarrow>
          (case b of Finite y \<Rightarrow> Finite (x + y) | PInf \<Rightarrow> PInf | NInf \<Rightarrow> NInf | NaN \<Rightarrow> NaN)
      | PInf \<Rightarrow>
          (case b of Finite y \<Rightarrow> PInf | PInf \<Rightarrow> PInf | NInf \<Rightarrow> NaN | NaN \<Rightarrow> NaN)
      | NInf \<Rightarrow>
          (case b of Finite y \<Rightarrow> NInf | PInf \<Rightarrow> NaN | NInf \<Rightarrow> NInf | NaN \<Rightarrow> NaN))"

definition times_fl :: "fl \<Rightarrow> fl \<Rightarrow> fl" where
  "times_fl a b =
     (case a of
        NaN \<Rightarrow> NaN
      | Finite x \<Rightarrow>
          (case b of
             Finite y \<Rightarrow> Finite (x * y)
           | PInf \<Rightarrow> (if x = 0 then NaN else if 0 < x then PInf else NInf)
           | NInf \<Rightarrow> (if x = 0 then NaN else if 0 < x then NInf else PInf)
           | NaN \<Rightarrow> NaN)
      | PInf \<Rightarrow>
          (case b of
             Finite y \<Rightarrow> (if y = 0 then NaN else if 0 < y then PInf else NInf)
           | PInf \<Rightarrow> PInf
           | NInf \<Rightarrow> NInf
           | NaN \<Rightarrow> NaN)
      | NInf \<Rightarrow>
          (case b of
             Finite y \<Rightarrow> (if y = 0 then NaN else if 0 < y then NInf else PInf)
           | PInf \<Rightarrow> NInf
           | NInf \<Rightarrow> PInf
           | NaN \<Rightarrow> NaN))"

instance
proof
  fix a b c :: fl
  show "a + b + c = a + (b + c)"
    by (cases a; cases b; cases c) (simp_all add: plus_fl_def)
  show "a + b = b + a"
    by (cases a; cases b) (simp_all add: plus_fl_def)
  show "0 + a = a"
    by (cases a) (simp_all add: plus_fl_def zero_fl_def)
qed

end

definition is_finite :: "fl \<Rightarrow> bool" where
  "is_finite x =
     (case x of Finite r \<Rightarrow> True | PInf \<Rightarrow> False | NInf \<Rightarrow> False | NaN \<Rightarrow> False)"

text \<open>Division of a float by a positive count, for means.\<close>

definition div_count :: "fl \<Rightarrow> nat \<Rightarrow> fl" where
  "div_count x n =
     (case x of Finite r \<Rightarrow> Finite (r / real n) | PInf \<Rightarrow> PInf | NInf \<Rightarrow> NInf | NaN \<Rightarrow> NaN)"

text \<open>
  The rows of \<open>inputs_embeds\<close> and of the projected graph features both have the width
  \<open>config.hidden_size\<close> (the embedding table and the projector's \<open>out_features\<close>), so
  \<open>torch.cat\<close> along dimension 0 is list append. Slices \<open>x[:a]\<close> and \<open>x[a:]\<close> with
  \<open>a \<ge> 0\<close> are \<open>take a x\<close> and \<open>drop a x\<close>: Python clamps them to the length.
\<close>

type_synonym vec = "fl list"
type_synonym tensor = "vec list"

definition finite_tensor :: "tensor \<Rightarrow> bool" where
  "finite_tensor t = list_all (list_all is_finite) t"

datatype error =
    ValueError string
  | IndexError
  | AssertionError
  | UnboundLocalError
  | RuntimeError
  | AttributeError
  | TypeError

text \<open>The attributes of \<open>graph_tower.config\<close> that \<open>forward\<close> reads.\<close>

record graph_config =
  graph_patch_token :: int
  graph_start_token :: int
  graph_end_token :: int
  use_graph_start_end :: bool

section \<open>Tensor primitives\<close>

text \<open>\<open>(cur_input_ids == tok).sum()\<close>\<close>

definition count_eq :: "int list \<Rightarrow> int \<Rightarrow> nat" where
  "count_eq ids tok = length (filter (\<lambda>t. t = tok) ids)"

text \<open>\<open>torch.where(cur_input_ids == tok)[0]\<close>: the positions holding \<open>tok\<close>, ascending.\<close>

definition torch_where :: "int list \<Rightarrow> int \<Rightarrow> nat list" where
  "torch_where ids tok = filter (\<lambda>i. ids ! i = tok) [0..<length ids]"

text \<open>\<open>xs[i]\<close> for \<open>i \<ge> 0\<close>: out of range raises IndexError.\<close>

definition index :: "'a list \<Rightarrow> nat \<Rightarrow> error + 'a" where
  "index xs i = (if i < length xs then Inr (xs ! i) else Inl IndexError)"

text \<open>\<open>x[a:b]\<close> for \<open>0 \<le> a \<le> b\<close>.\<close>

definition slice :: "nat \<Rightarrow> nat \<Rightarrow> 'a list \<Rightarrow> 'a list" where
  "slice a b xs = take (b - a) (drop a xs)"

text \<open>\<open>torch.arange(a, b)\<close>\<close>

definition arange :: "nat \<Rightarrow> nat \<Rightarrow> nat list" where
  "arange a b = [a..<b]"

text \<open>\<open>(xs != ys).any()\<close> on two one-dimensional tensors of equal length.\<close>

definition any_ne :: "nat list \<Rightarrow> nat list \<Rightarrow> bool" where
  "any_ne xs ys = list_ex (\<lambda>(a, b). a \<noteq> b) (zip xs ys)"

text \<open>\<open>.detach()\<close> cuts the gradient graph and keeps every value.\<close>

definition detach :: "tensor \<Rightarrow> tensor" where
  "detach t = t"

text \<open>\<open>c * t\<close>, \<open>t.sum()\<close> and \<open>t + c\<close> (a scalar broadcast over every entry).\<close>

definition scale :: "fl \<Rightarrow> tensor \<Rightarrow> tensor" where
  "scale c t = map (map (\<lambda>x. c * x)) t"

definition tensor_sum :: "tensor \<Rightarrow> fl" where
  "tensor_sum t = sum_list (map sum_list t)"

definition add_scalar :: "tensor \<Rightarrow> fl \<Rightarrow> tensor" where
  "add_scalar t c = map (map (\<lambda>x. x + c)) t"

section \<open>The embedding splicer: one sample\<close>

text \<open>
  The local variables of \<open>forward\<close> that live across the iterations of the sample loop.
  \<open>cur_new_input_embeds\<close> is unbound (\<open>None\<close>) until a branch assigns it; Python keeps
  its value from one sample to the next.
\<close>

record splice_state =
  new_input_embeds :: "tensor list"
  cur_graph_idx :: nat
  cur_new_input_embeds :: "tensor option"

definition msg_start_end_count :: string where
  "msg_start_end_count = ''The number of graph start tokens and graph end tokens should be the same.''"

definition msg_end_follows :: string where
  "msg_end_follows = ''The graph end token should follow the graph start token.''"

definition msg_patch_count :: string where
  "msg_patch_count = ''The number of graph patch tokens should be the same as the number of graph patches.''"

definition msg_consecutive :: string where
  "msg_consecutive = ''The graph patch tokens should be consecutive.''"

text \<open>
  Lines 240-249: \<open>for graph_start_token_pos in graph_start_tokens\<close>. The loop carries
  \<open>cur_graph_idx\<close> and \<open>cur_new_input_embeds\<close>; every iteration builds its sequence
  from \<open>cur_input_embeds\<close>. \<open>protect\<close> is \<open>orig_embeds_params is not None\<close>.
\<close>

fun start_loop ::
  "graph_config \<Rightarrow> bool \<Rightarrow> tensor list \<Rightarrow> int list \<Rightarrow> tensor \<Rightarrow> nat list
     \<Rightarrow> nat \<times> tensor option \<Rightarrow> error + (nat \<times> tensor option)" where
  "start_loop cfg protect graph_node_features cur_input_ids cur_input_embeds [] st = Inr st"
| "start_loop cfg protect graph_node_features cur_input_ids cur_input_embeds (p # ps) (idx, cur) =
     (case index graph_node_features idx of
        Inl e \<Rightarrow> Inl e
      | Inr cur_graph_features \<Rightarrow>
          (let num_patches = length cur_graph_features in
           case index cur_input_ids (p + num_patches + 1) of
             Inl e \<Rightarrow> Inl e
           | Inr tok \<Rightarrow>
               if tok \<noteq> graph_end_token cfg then Inl (ValueError msg_end_follows)
               else
                 (let cur_new =
                    (if protect then
                       detach (take p cur_input_embeds)
                       @ slice p (p + 1) cur_input_embeds
                       @ cur_graph_features
                       @ slice (p + num_patches + 1) (p + num_patches + 2) cur_input_embeds
                       @ detach (drop (p + num_patches + 2) cur_input_embeds)
                     else
                       take (p + 1) cur_input_embeds
                       @ cur_graph_features
                       @ drop (p + num_patches + 1) cur_input_embeds)
                  in start_loop cfg protect graph_node_features cur_input_ids cur_input_embeds ps
                       (idx + 1, Some cur_new))))"

text \<open>Lines 223-265: the body of \<open>for cur_input_ids, cur_input_embeds in zip(...)\<close>.\<close>

definition splice_sample ::
  "graph_config \<Rightarrow> bool \<Rightarrow> tensor list \<Rightarrow> tensor \<Rightarrow> int list \<times> tensor
     \<Rightarrow> splice_state \<Rightarrow> error + splice_state" where
  "splice_sample cfg protect graph_node_features dummy_graph_features x s =
     (let cur_input_ids = fst x; cur_input_embeds = snd x in
      if count_eq cur_input_ids (graph_patch_token cfg) = 0 then
        Inr (s\<lparr>new_input_embeds := new_input_embeds s
                   @ [add_scalar cur_input_embeds (tensor_sum (scale 0 dummy_graph_features))],
               cur_graph_idx := cur_graph_idx s + 1\<rparr>)
      else if use_graph_start_end cfg then
        (case index graph_node_features (cur_graph_idx s) of
           Inl e \<Rightarrow> Inl e
         | Inr cur_graph_features \<Rightarrow>
             if count_eq cur_input_ids (graph_start_token cfg)
                  \<noteq> count_eq cur_input_ids (graph_end_token cfg)
             then Inl (ValueError msg_start_end_count)
             else
               (case start_loop cfg protect graph_node_features cur_input_ids cur_input_embeds
                       (torch_where cur_input_ids (graph_start_token cfg))
                       (cur_graph_idx s, cur_new_input_embeds s) of
                  Inl e \<Rightarrow> Inl e
                | Inr (idx, cur) \<Rightarrow>
                    (case cur of
                       None \<Rightarrow> Inl UnboundLocalError
                     | Some m \<Rightarrow>
                         Inr (s\<lparr>new_input_embeds := new_input_embeds s @ [m],
                                cur_graph_idx := idx,
                                cur_new_input_embeds := Some m\<rparr>))))
      else
        (case index graph_node_features (cur_graph_idx s) of
           Inl e \<Rightarrow> Inl e
         | Inr cur_graph_features \<Rightarrow>
             (let num_patches = length cur_graph_features in
              if count_eq cur_input_ids (graph_patch_token cfg) \<noteq> num_patches
              then Inl (ValueError msg_patch_count)
              else
                (let masked_indices = torch_where cur_input_ids (graph_patch_token cfg) in
                 case index masked_indices 0 of
                   Inl e \<Rightarrow> Inl e
                 | Inr mask_index_start \<Rightarrow>
                     if any_ne masked_indices
                          (arange mask_index_start (mask_index_start + num_patches))
                     then Inl (ValueError msg_consecutive)
                     else
                       (let cur_new =
                          (if protect then
                             detach (take mask_index_start cur_input_embeds)
                             @ cur_graph_features
                             @ detach (drop (mask_index_start + num_patches) cur_input_embeds)
                           else
                             take mask_index_start cur_input_embeds
                             @ cur_graph_features
                             @ drop (mask_index_start + num_patches) cur_input_embeds)
                        in Inr (s\<lparr>new_input_embeds := new_input_embeds s @ [cur_new],
                                  cur_graph_idx := cur_graph_idx s + 1,
                                  cur_new_input_embeds := Some cur_new\<rparr>))))))"

text \<open>The sample loop: the first exception ends the call.\<close>

fun splice_loop ::
  "graph_config \<Rightarrow> bool \<Rightarrow> tensor list \<Rightarrow> tensor \<Rightarrow> (int list \<times> tensor) list
     \<Rightarrow> splice_state \<Rightarrow> error + splice_state" where
  "splice_loop cfg protect feats dummy [] s = Inr s"
| "splice_loop cfg protect feats dummy (x # xs) s =
     (case splice_sample cfg protect feats dummy x s of
        Inl e \<Rightarrow> Inl e
      | Inr s' \<Rightarrow> splice_loop cfg protect feats dummy xs s')"

section \<open>The projection layer\<close>

text \<open>
  \<open>nn.Linear(in_features, out_features)\<close>: weight of shape \<open>[out, in]\<close>, bias of shape
  \<open>[out]\<close>. Applying it to a tensor whose rows are not \<open>in_features\<close> wide raises a
  RuntimeError (the shapes cannot be multiplied).
\<close>

record linear =
  in_features :: nat
  out_features :: nat
  weight :: "fl list list"
  bias :: "fl list"

definition nn_Linear :: "nat \<Rightarrow> nat \<Rightarrow> fl list list \<Rightarrow> fl list \<Rightarrow> linear" where
  "nn_Linear i out W b = \<lparr>in_features = i, out_features = out, weight = W, bias = b\<rparr>"

definition dot :: "vec \<Rightarrow> vec \<Rightarrow> fl" where
  "dot x w = sum_list (map (\<lambda>(a, b). a * b) (zip x w))"

definition linear_apply :: "linear \<Rightarrow> tensor \<Rightarrow> error + tensor" where
  "linear_apply l x =
     (if list_all (\<lambda>row. length row = in_features l) x
      then Inr (map (\<lambda>row. map (\<lambda>j. dot row (weight l ! j) + bias l ! j) [0..<out_features l]) x)
      else Inl RuntimeError)"

text \<open>\<open>torch.zeros(n, d)\<close>\<close>

definition zeros :: "nat \<Rightarrow> nat \<Rightarrow> tensor" where
  "zeros n d = replicate n (replicate d 0)"

text \<open>
  The fields of the model configuration that the projector reads;
  \<open>has_use_graph_proj\<close> is \<open>hasattr(config, "use_graph_proj")\<close>.
\<close>

record llama_config =
  hidden_size :: nat
  graph_hidden_size :: nat
  has_use_graph_proj :: bool

text \<open>
  Lines 106-110 of \<open>GraphLlamaModel.__init__\<close>; \<open>W\<close> and \<open>b\<close> are the initial
  parameters of the layer.
\<close>

definition init_graph_projector :: "llama_config \<Rightarrow> fl list list \<Rightarrow> fl list \<Rightarrow> linear option" where
  "init_graph_projector config W b =
     (if has_use_graph_proj config
      then Some (nn_Linear (graph_hidden_size config) (hidden_size config) W b)
      else None)"

section \<open>The forward pass\<close>

text \<open>
  The model as \<open>forward\<close> sees it. The graph encoder and the token embedding are
  external: \<open>graph_tower\<close> maps one graph to its node features (\<open>None\<close> when the model
  has no tower), \<open>embed_tokens\<close> maps a batch of token ids to a batch of embeddings
  or fails.
\<close>

record 'g graph_llama_model =
  graph_tower :: "('g \<Rightarrow> tensor) option"
  tower_config :: graph_config
  graph_projector :: "linear option"
  embed_tokens :: "int list list \<Rightarrow> error + tensor list"
  training :: bool
  orig_embeds_params :: "tensor option"

text \<open>
  The \<open>graph_data\<close> argument: not a list, a list of \<open>Data\<close> objects, a list of
  dictionaries with the keys \<open>graph_1\<close> and \<open>graph_2\<close>, or a list whose first element
  is neither.
\<close>

datatype 'g graph_data =
    NotAList
  | DataList "'g list"
  | DictList "('g \<times> 'g) list"
  | OtherList

definition msg_not_list :: string where
  "msg_not_list = ''graph_node_reps is expected to be a list''"

text \<open>Lines 193-208; \<open>graph_data[0]\<close> on an empty list raises IndexError.\<close>

definition encode_graphs :: "('g \<Rightarrow> tensor) \<Rightarrow> 'g graph_data \<Rightarrow> error + tensor list" where
  "encode_graphs tower gd =
     (case gd of
        NotAList \<Rightarrow> Inl (ValueError msg_not_list)
      | DataList gs \<Rightarrow> if gs = [] then Inl IndexError else Inr (map tower gs)
      | DictList ds \<Rightarrow>
          if ds = [] then Inl IndexError
          else Inr (concat (map (\<lambda>(g1, g2). [tower g1, tower g2]) ds))
      | OtherList \<Rightarrow> Inr [])"

text \<open>Line 212: the projector applied to every feature set.\<close>

fun project_all :: "linear \<Rightarrow> tensor list \<Rightarrow> error + tensor list" where
  "project_all l [] = Inr []"
| "project_all l (f # fs) =
     (case linear_apply l f of
        Inl e \<Rightarrow> Inl e
      | Inr y \<Rightarrow> (case project_all l fs of Inl e \<Rightarrow> Inl e | Inr ys \<Rightarrow> Inr (y # ys)))"

text \<open>Lines 217-218: the zero placeholder and its projection.\<close>

definition dummy_projection :: "linear \<Rightarrow> error + tensor" where
  "dummy_projection l = linear_apply l (zeros 256 128)"

text \<open>
  \<open>torch.stack\<close>: a non-empty list of tensors of one shape. The rows all have the
  hidden width, so two sequences have one shape when they have one length.
\<close>

definition torch_stack :: "tensor list \<Rightarrow> error + tensor list" where
  "torch_stack ts =
     (case ts of
        [] \<Rightarrow> Inl RuntimeError
      | t # rest \<Rightarrow>
          if list_all (\<lambda>u. length u = length t) rest then Inr ts else Inl RuntimeError)"

text \<open>
  \<open>input_ids.shape[1]\<close>: a batch is the list of its rows, all of one length; the
  empty batch is given the width 0.
\<close>

definition shape1 :: "int list list \<Rightarrow> nat" where
  "shape1 ids = (case ids of [] \<Rightarrow> 0 | r # _ \<Rightarrow> length r)"

definition init_splice_state :: splice_state where
  "init_splice_state = \<lparr>new_input_embeds = [], cur_graph_idx = 0, cur_new_input_embeds = None\<rparr>"

text \<open>Lines 220-270: the sample loop, the assertion on the cursor, the stacking.\<close>

definition splice_batch ::
  "graph_config \<Rightarrow> bool \<Rightarrow> tensor list \<Rightarrow> tensor \<Rightarrow> int list list \<Rightarrow> tensor list
     \<Rightarrow> error + tensor list" where
  "splice_batch cfg protect graph_node_features dummy_graph_features input_ids inputs_embeds =
     (case splice_loop cfg protect graph_node_features dummy_graph_features
             (zip input_ids inputs_embeds) init_splice_state of
        Inl e \<Rightarrow> Inl e
      | Inr s \<Rightarrow>
          if cur_graph_idx s = length graph_node_features
          then torch_stack (new_input_embeds s)
          else Inl AssertionError)"

text \<open>
  \<open>GraphLlamaModel.forward\<close>. The result is the \<open>inputs_embeds\<close> handed to the decoder
  backbone (\<open>super().forward\<close>, external), or the exception raised before that call.
\<close>

definition forward ::
  "'g graph_llama_model \<Rightarrow> int list list option \<Rightarrow> tensor list option
     \<Rightarrow> 'g graph_data option \<Rightarrow> error + tensor list" where
  "forward self input_ids inputs_embeds graph_data =
     (case (case inputs_embeds of
              Some e \<Rightarrow> Inr e
            | None \<Rightarrow> (case input_ids of None \<Rightarrow> Inl TypeError
                                       | Some ids \<Rightarrow> embed_tokens self ids)) of
        Inl e \<Rightarrow> Inl e
      | Inr embs \<Rightarrow>
          (case graph_tower self of
             None \<Rightarrow> Inr embs
           | Some tower \<Rightarrow>
               (case input_ids of
                  None \<Rightarrow> Inl AttributeError
                | Some ids \<Rightarrow>
                    if shape1 ids \<noteq> 1 \<or> training self then
                      (case graph_data of
                         None \<Rightarrow> Inr embs
                       | Some gd \<Rightarrow>
                           (case encode_graphs tower gd of
                              Inl e \<Rightarrow> Inl e
                            | Inr raw_features \<Rightarrow>
                                (case graph_projector self of
                                   None \<Rightarrow> Inl AttributeError
                                 | Some proj \<Rightarrow>
                                     (case project_all proj raw_features of
                                        Inl e \<Rightarrow> Inl e
                                      | Inr graph_node_features \<Rightarrow>
                                          (case dummy_projection proj of
                                             Inl e \<Rightarrow> Inl e
                                           | Inr dummy_graph_features \<Rightarrow>
                                               splice_batch (tower_config self)
                                                 (orig_embeds_params self \<noteq> None)
                                                 graph_node_features dummy_graph_features
                                                 ids embs)))))
                    else Inr embs)))"

section \<open>The token registrar\<close>

text \<open>
  The tokenizer is the external library's and is taken as it comes: a state \<open>'tk\<close>
  with its three operations. \<open>add_tokens\<close> returns the new state and the number it
  reports as added, \<open>len\<close> is \<open>len(tokenizer)\<close>, \<open>convert_tokens_to_ids\<close> the id
  of one token. Nothing is assumed of how the reported number and the growth of
  \<open>len\<close> relate.
\<close>

record 'tk tokenizer_ops =
  add_tokens :: "string list \<Rightarrow> 'tk \<Rightarrow> 'tk \<times> nat"
  len :: "'tk \<Rightarrow> nat"
  convert_tokens_to_ids :: "'tk \<Rightarrow> string \<Rightarrow> int"

definition DEFAULT_GRAPH_PATCH_TOKEN :: string where
  "DEFAULT_GRAPH_PATCH_TOKEN = ''<g_patch>''"

definition DEFAULT_G_START_TOKEN :: string where
  "DEFAULT_G_START_TOKEN = ''<g_start>''"

definition DEFAULT_G_END_TOKEN :: string where
  "DEFAULT_G_END_TOKEN = ''<g_end>''"

text \<open>
  \<open>resize_token_embeddings\<close> keeps the rows there are and appends rows the library
  initialises (\<open>fresh i\<close> for row \<open>i\<close>).
\<close>

definition resize_token_embeddings :: "(nat \<Rightarrow> vec) \<Rightarrow> tensor \<Rightarrow> nat \<Rightarrow> tensor" where
  "resize_token_embeddings fresh tbl n =
     (if n \<le> length tbl then take n tbl else tbl @ map fresh [length tbl..<n])"

text \<open>
  Lines 409-415 for one table: \<open>avg = t[:-k].mean(dim=0, keepdim=True); t[-k:] = avg\<close>
  with \<open>k > 0\<close>. \<open>mean\<close> is the library's \<open>.mean(dim=0)\<close>, which rounds to the
  dtype of the table; it is a parameter. When \<open>k\<close> exceeds the number of rows, \<open>t[:-k]\<close>
  is empty and \<open>t[-k:]\<close> is the whole table.
\<close>

definition mean_init :: "(tensor \<Rightarrow> vec) \<Rightarrow> nat \<Rightarrow> tensor \<Rightarrow> tensor" where
  "mean_init mean k tbl =
     (let old = take (length tbl - k) tbl
      in old @ replicate (length tbl - length old) (mean old))"

text \<open>\<open>t[-k:] = rows\<close> with \<open>k > 0\<close> rows given.\<close>

definition set_last :: "nat \<Rightarrow> tensor \<Rightarrow> tensor \<Rightarrow> tensor" where
  "set_last k rows tbl = take (length tbl - k) tbl @ rows"

definition shape :: "tensor \<Rightarrow> nat \<times> nat" where
  "shape t = (length t, case t of [] \<Rightarrow> 0 | r # _ \<Rightarrow> length r)"

definition msg_unexpected_shape :: string where
  "msg_unexpected_shape = ''Unexpected embed_tokens_weight shape.''"

text \<open>
  The state of \<open>GraphLlamaForCausalLM\<close> that the registrar reads and writes:
  the two embedding tables, the tower's configuration (\<open>None\<close> when there is no
  tower), the snapshot \<open>orig_embeds_params\<close> and the two \<open>requires_grad\<close> flags.
\<close>

record causal_lm =
  input_embeddings :: tensor
  output_embeddings :: tensor
  vision_config :: "graph_config option"
  lm_orig_embeds_params :: "tensor option"
  input_requires_grad :: bool
  output_requires_grad :: bool

text \<open>
  \<open>initialize_graph_tokenizer\<close>, lines 393-435. \<open>pretrain\<close> is the tensor
  \<open>model.embed_tokens.weight\<close> of the adapter checkpoint, \<open>None\<close> when no path is given.
\<close>

definition initialize_graph_tokenizer ::
  "'tk tokenizer_ops \<Rightarrow> (tensor \<Rightarrow> vec) \<Rightarrow> (nat \<Rightarrow> vec) \<Rightarrow> (nat \<Rightarrow> vec) \<Rightarrow> causal_lm \<Rightarrow> bool
     \<Rightarrow> 'tk \<Rightarrow> bool \<Rightarrow> tensor option \<Rightarrow> error + causal_lm \<times> 'tk" where
  "initialize_graph_tokenizer tok mean fresh_in fresh_out self use_start_end tokenizer
       tune_graph_mlp_adapter pretrain =
     (case vision_config self of
        None \<Rightarrow> Inl AttributeError
      | Some vc0 \<Rightarrow>
          (let vc1 = vc0\<lparr>use_graph_start_end := use_start_end\<rparr>;
               tk1 = fst (add_tokens tok [DEFAULT_GRAPH_PATCH_TOKEN] tokenizer);
               in1 = resize_token_embeddings fresh_in (input_embeddings self) (len tok tk1);
               out1 = resize_token_embeddings fresh_out (output_embeddings self) (len tok tk1)
           in
           if use_start_end then
             (let added = add_tokens tok [DEFAULT_G_START_TOKEN, DEFAULT_G_END_TOKEN] tk1;
                  tk2 = fst added;
                  num_new_tokens = snd added;
                  in2 = resize_token_embeddings fresh_in in1 (len tok tk2);
                  out2 = resize_token_embeddings fresh_out out1 (len tok tk2);
                  vc2 = vc1\<lparr>graph_start_token :=
                              convert_tokens_to_ids tok tk2 DEFAULT_G_START_TOKEN,
                            graph_end_token :=
                              convert_tokens_to_ids tok tk2 DEFAULT_G_END_TOKEN\<rparr>;
                  in3 = (if num_new_tokens > 0 then mean_init mean num_new_tokens in2 else in2);
                  out3 = (if num_new_tokens > 0 then mean_init mean num_new_tokens out2
                          else out2);
                  vc3 = vc2\<lparr>graph_patch_token :=
                              convert_tokens_to_ids tok tk2 DEFAULT_GRAPH_PATCH_TOKEN\<rparr>;
                  self3 = self\<lparr>input_embeddings := in3,
                               output_embeddings := out3,
                               vision_config := Some vc3,
                               lm_orig_embeds_params :=
                                 (if tune_graph_mlp_adapter then Some in3
                                  else lm_orig_embeds_params self),
                               input_requires_grad :=
                                 (if tune_graph_mlp_adapter then True
                                  else input_requires_grad self),
                               output_requires_grad :=
                                 (if tune_graph_mlp_adapter then False
                                  else output_requires_grad self)\<rparr>
              in
              case pretrain of
                None \<Rightarrow> Inr (self3, tk2)
              | Some embed_tokens_weight \<Rightarrow>
                  if num_new_tokens \<noteq> 2 then Inl AssertionError
                  else if shape in3 = shape embed_tokens_weight then
                    Inr (self3\<lparr>input_embeddings :=
                                  set_last num_new_tokens
                                    (drop (length embed_tokens_weight - num_new_tokens)
                                       embed_tokens_weight) in3\<rparr>, tk2)
                  else if length embed_tokens_weight = num_new_tokens then
                    (if snd (shape embed_tokens_weight) = snd (shape in3)
                     then Inr (self3\<lparr>input_embeddings :=
                                        set_last num_new_tokens embed_tokens_weight in3\<rparr>, tk2)
                     else Inl RuntimeError)
                  else Inl (ValueError msg_unexpected_shape))
           else
             Inr (self\<lparr>input_embeddings := in1,
                       output_embeddings := out1,
                       vision_config :=
                         Some (vc1\<lparr>graph_patch_token :=
                                     convert_tokens_to_ids tok tk1 DEFAULT_GRAPH_PATCH_TOKEN\<rparr>)\<rparr>,
                  tk1)))"

section \<open>Predicates of the specification\<close>

text \<open>
  The PATCH positions form one contiguous ascending run: they are \<open>p, p + 1, \<dots>\<close>
  from the first of them on.
\<close>

definition contiguous :: "nat list \<Rightarrow> bool" where
  "contiguous xs = (case xs of [] \<Rightarrow> True | p # _ \<Rightarrow> xs = [p..<p + length xs])"

section \<open>Example inputs\<close>

definition cfg_patch_only :: graph_config where
  "cfg_patch_only =
     \<lparr>graph_patch_token = 7, graph_start_token = 8, graph_end_token = 9,
      use_graph_start_end = False\<rparr>"

definition cfg_start_end :: graph_config where
  "cfg_start_end =
     \<lparr>graph_patch_token = 7, graph_start_token = 8, graph_end_token = 9,
      use_graph_start_end = True\<rparr>"

text \<open>The loop state after one start/end sample with the merged sequence \<open>[[4], [10], [6]]\<close>.\<close>

definition state_after_one :: splice_state where
  "state_after_one =
     \<lparr>new_input_embeds = [[[4], [10], [6]]], cur_graph_idx = 1,
      cur_new_input_embeds = Some [[4], [10], [6]]\<rparr>"

text \<open>
  A model for the examples: a graph is given by its number of nodes, the encoder returns
  that many node features of width \<open>graph_hidden_size\<close>, the projector is the one
  \<open>__init__\<close> builds from the configuration, a token is embedded as the one-entry
  vector of its id.
\<close>

definition config128 :: llama_config where
  "config128 = \<lparr>hidden_size = 1, graph_hidden_size = 128, has_use_graph_proj = True\<rparr>"

definition config64 :: llama_config where
  "config64 = \<lparr>hidden_size = 1, graph_hidden_size = 64, has_use_graph_proj = True\<rparr>"

definition embed_ids :: "int list list \<Rightarrow> error + tensor list" where
  "embed_ids ids = Inr (map (map (\<lambda>t. [Finite (real_of_int t)])) ids)"

definition example_model :: "llama_config \<Rightarrow> bool \<Rightarrow> nat graph_llama_model" where
  "example_model config tr =
     \<lparr>graph_tower = Some (\<lambda>n. replicate n (replicate (graph_hidden_size config) 1)),
      tower_config = cfg_patch_only,
      graph_projector =
        init_graph_projector config [replicate (graph_hidden_size config) 0] [5],
      embed_tokens = embed_ids,
      training = tr,
      orig_embeds_params = None\<rparr>"

text \<open>
  The exact mean of the rows, column by column: what \<open>.mean(dim=0)\<close> returns where
  no rounding occurs.
\<close>

definition mean_dim0 :: "tensor \<Rightarrow> vec" where
  "mean_dim0 rows =
     (case rows of
        [] \<Rightarrow> []
      | r # _ \<Rightarrow>
          map (\<lambda>j. div_count (sum_list (map (\<lambda>row. row ! j) rows)) (length rows))
            [0..<length r])"

text \<open>
  Two tokenizers over a vocabulary, the list of the tokens in id order. Both append
  the tokens that are not in the vocabulary yet. The first reports how many it
  appended; the second reports every token it was given, also one the vocabulary had.
\<close>

fun append_new :: "string list \<Rightarrow> string list \<Rightarrow> string list" where
  "append_new [] tk = tk"
| "append_new (t # ts) tk = (if t \<in> set tk then append_new ts tk else append_new ts (tk @ [t]))"

definition token_id :: "string list \<Rightarrow> string \<Rightarrow> int" where
  "token_id tk t = int (length (takeWhile (\<lambda>u. u \<noteq> t) tk))"

definition list_tokenizer :: "string list tokenizer_ops" where
  "list_tokenizer =
     \<lparr>add_tokens = (\<lambda>ts tk. (append_new ts tk, length (append_new ts tk) - length tk)),
      len = length,
      convert_tokens_to_ids = token_id\<rparr>"

definition reporting_tokenizer :: "string list tokenizer_ops" where
  "reporting_tokenizer =
     \<lparr>add_tokens = (\<lambda>ts tk. (append_new ts tk, length ts)),
      len = length,
      convert_tokens_to_ids = token_id\<rparr>"

text \<open>A language model with two tokens and one-entry embedding rows.\<close>

definition lm0 :: causal_lm where
  "lm0 =
     \<lparr>input_embeddings = [[0], [2]],
      output_embeddings = [[4], [8]],
      vision_config = Some cfg_patch_only,
      lm_orig_embeds_params = None,
      input_requires_grad = False,
      output_requires_grad = True\<rparr>"

definition vocab0 :: "string list" where
  "vocab0 = [''a'', ''b'']"

text \<open>A vocabulary that has the START token already.\<close>

definition vocab1 :: "string list" where
  "vocab1 = [''a'', ''<g_start>'']"

text \<open>The example model with a projector whose bias is infinite.\<close>

definition inf_bias_model :: "nat graph_llama_model" where
  "inf_bias_model =
     (example_model config128 True)
       \<lparr>graph_projector := Some (nn_Linear 128 1 [replicate 128 0] [PInf])\<rparr>"

section \<open>Facts about the primitives\<close>

lemma length_torch_where: "length (torch_where ids tok) = count_eq ids tok"
proof (induction ids rule: rev_induct)
  case Nil
  show ?case by (simp add: torch_where_def count_eq_def)
next
  case (snoc x xs)
  have "filter (\<lambda>i. (xs @ [x]) ! i = tok) [0..<length xs] = filter (\<lambda>i. xs ! i = tok) [0..<length xs]"
    by (rule filter_cong) (auto simp: nth_append)
  with snoc show ?case
    by (simp add: torch_where_def count_eq_def)
qed

lemma torch_where_Nil: "count_eq ids tok = 0 \<Longrightarrow> torch_where ids tok = []"
  using length_torch_where [of ids tok] by simp

lemma torch_where_bound: "p \<in> set (torch_where ids tok) \<Longrightarrow> p < length ids \<and> ids ! p = tok"
  by (auto simp: torch_where_def)

lemma Finite_add: "Finite a + Finite b = Finite (a + b)"
  by (simp add: plus_fl_def)

lemma Finite_numeral: "Finite (numeral n) = numeral n"
  by (induction n) (simp_all only: numeral.simps one_fl_def Finite_add [symmetric])

lemma numeral_fl: "numeral n = Finite (numeral n)"
  by (rule Finite_numeral [symmetric])

lemma is_finite_simps [simp]:
  "is_finite (Finite r)" "\<not> is_finite PInf" "\<not> is_finite NInf" "\<not> is_finite NaN"
  "is_finite 0" "is_finite 1" "is_finite (numeral n)"
  by (simp_all add: is_finite_def zero_fl_def one_fl_def numeral_fl)

lemma zero_times_finite: "is_finite x \<Longrightarrow> 0 * x = 0"
  by (cases x) (simp_all add: times_fl_def zero_fl_def)

lemma zero_times_nonfinite: "\<not> is_finite x \<Longrightarrow> 0 * x = NaN"
  by (cases x) (simp_all add: times_fl_def zero_fl_def)

lemma finite_times_0: "is_finite x \<Longrightarrow> x * 0 = 0"
  by (cases x) (simp_all add: times_fl_def zero_fl_def)

lemma div_count_simps [simp]:
  "div_count (Finite r) n = Finite (r / real n)"
  "div_count (numeral m) n = Finite (numeral m / real n)"
  "div_count 0 n = Finite 0"
  by (simp_all add: div_count_def numeral_fl zero_fl_def)

lemma Finite_literals [simp]:
  "Finite 0 = 0" "Finite 1 = 1" "Finite (numeral n) = numeral n"
  by (simp_all add: zero_fl_def one_fl_def Finite_numeral)

lemma NaN_add [simp]: "NaN + x = NaN" "x + NaN = NaN"
  by (cases x; simp add: plus_fl_def)+

lemma sum_list_NaN: "NaN \<in> set xs \<Longrightarrow> sum_list xs = NaN"
  by (induction xs) auto

lemma row_sum_scale_0:
  "sum_list (map (\<lambda>x. 0 * x) row) = (if list_all is_finite row then 0 else NaN)"
  by (induction row) (auto simp: zero_times_finite zero_times_nonfinite)

text \<open>
  The dummy term \<open>(0. * dummy_graph_features).sum()\<close>: zero when every entry of the
  projected placeholder is finite, not-a-number otherwise.
\<close>

lemma tensor_sum_scale_0:
  "tensor_sum (scale 0 t) = (if finite_tensor t then 0 else NaN)"
  by (induction t) (auto simp: tensor_sum_def scale_def finite_tensor_def row_sum_scale_0)

lemma add_scalar_0: "add_scalar t 0 = t"
  by (simp add: add_scalar_def map_idI)

lemma add_scalar_NaN: "add_scalar t NaN = map (map (\<lambda>x. NaN)) t"
  by (simp add: add_scalar_def)

lemma finite_tensor_simps [simp]:
  "finite_tensor []"
  "finite_tensor (row # t) \<longleftrightarrow> list_all is_finite row \<and> finite_tensor t"
  "finite_tensor (replicate n row) \<longleftrightarrow> n = 0 \<or> list_all is_finite row"
  by (auto simp: finite_tensor_def list_all_iff)

lemma any_ne_same: "\<not> any_ne xs xs"
  by (induction xs) (simp_all add: any_ne_def)

lemma any_ne_iff: "length xs = length ys \<Longrightarrow> any_ne xs ys \<longleftrightarrow> xs \<noteq> ys"
  by (induction xs ys rule: list_induct2) (auto simp: any_ne_def)

section \<open>The sample loop stops at the first exception\<close>

lemma splice_loop_append:
  "splice_loop cfg protect feats dummy (xs @ ys) s =
     (case splice_loop cfg protect feats dummy xs s of
        Inl e \<Rightarrow> Inl e
      | Inr s' \<Rightarrow> splice_loop cfg protect feats dummy ys s')"
  by (induction xs arbitrary: s) (simp_all split: sum.splits)

lemma splice_batch_abort:
  assumes "zip idss embss = pre @ x # rest"
    and "splice_loop cfg protect feats dummy pre init_splice_state = Inr s"
    and "splice_sample cfg protect feats dummy x s = Inl e"
  shows "splice_batch cfg protect feats dummy idss embss = Inl e"
  using assms by (simp add: splice_batch_def splice_loop_append)

text \<open>A call that reaches the splicing path returns what the sample loop returns.\<close>

lemma forward_splice_batch:
  assumes "(case inputs_embeds of Some e \<Rightarrow> Inr e | None \<Rightarrow> embed_tokens self ids) = Inr embs"
    and "graph_tower self = Some tower"
    and "shape1 ids \<noteq> 1 \<or> training self"
    and "encode_graphs tower gd = Inr raw"
    and "graph_projector self = Some proj"
    and "project_all proj raw = Inr feats"
    and "dummy_projection proj = Inr dummy"
  shows "forward self (Some ids) inputs_embeds (Some gd) =
           splice_batch (tower_config self) (orig_embeds_params self \<noteq> None) feats dummy
             ids embs"
  using assms by (auto simp: forward_def split: option.splits)

section \<open>Text-only samples\<close>

text \<open>
  C3, as stated, fails. The dummy term is \<open>0. * dummy_graph_features\<close> summed, and
  in floating point \<open>0 * inf\<close> is \<open>nan\<close>. With a projector whose bias is infinite the
  projected placeholder is infinite, the term is \<open>nan\<close>, and a sample without a PATCH
  marker comes out with every entry \<open>nan\<close>, at the sample and through \<open>forward\<close>.
\<close>

theorem text_only_sample_nan:
  "count_eq [1, 2] (graph_patch_token cfg_patch_only) = 0
   \<and> dummy_projection (nn_Linear 128 1 [replicate 128 0] [PInf]) = Inr (replicate 256 [PInf])
   \<and> splice_sample cfg_patch_only False [[[PInf]]] (replicate 256 [PInf])
         ([1, 2], [[1], [2]]) init_splice_state =
       Inr \<lparr>new_input_embeds = [[[NaN], [NaN]]], cur_graph_idx = 1,
            cur_new_input_embeds = None\<rparr>
   \<and> forward inf_bias_model (Some [[1, 2]]) None (Some (DataList [1])) = Inr [[[NaN], [NaN]]]"
proof -
  let ?p = "nn_Linear 128 1 [replicate 128 0] [PInf]"
  have z: "sum_list (replicate n (0 :: fl)) = 0" for n
    by (induction n) simp_all
  have la: "linear_apply ?p (replicate n (replicate 128 x)) = Inr (replicate n [PInf])"
    if "is_finite x" for n x
    using that
    by (simp add: linear_apply_def nn_Linear_def dot_def list_all_iff finite_times_0 z)
  have c: "count_eq [1, 2] (graph_patch_token cfg_patch_only) = 0"
    by (simp add: count_eq_def cfg_patch_only_def)
  have d: "dummy_projection ?p = Inr (replicate 256 [PInf])"
    using la [of 0 256] by (simp add: dummy_projection_def zeros_def)
  have s: "splice_sample cfg_patch_only False [[[PInf]]] (replicate 256 [PInf])
             ([1, 2], [[1], [2]]) init_splice_state =
           Inr \<lparr>new_input_embeds = [[[NaN], [NaN]]], cur_graph_idx = 1,
                cur_new_input_embeds = None\<rparr>"
    using c
    by (simp add: splice_sample_def tensor_sum_scale_0 add_scalar_NaN init_splice_state_def)
  have pa: "project_all ?p [replicate 1 (replicate 128 1)] = Inr [[[PInf]]]"
    using la [of 1 1] by simp
  have e: "(case None of Some e \<Rightarrow> Inr e | None \<Rightarrow> embed_tokens inf_bias_model [[1, 2]])
             = Inr [[[1], [2]]]"
    by (simp add: inf_bias_model_def example_model_def embed_ids_def)
  have t: "graph_tower inf_bias_model = Some (\<lambda>n. replicate n (replicate 128 1))"
    by (simp add: inf_bias_model_def example_model_def config128_def)
  have tr: "shape1 [[1, 2]] \<noteq> 1 \<or> training inf_bias_model"
    by (simp add: inf_bias_model_def example_model_def)
  have g: "encode_graphs (\<lambda>n. replicate n (replicate 128 1)) (DataList [1 :: nat])
             = Inr [replicate 1 (replicate 128 1)]"
    by (simp add: encode_graphs_def)
  have p: "graph_projector inf_bias_model = Some ?p"
    by (simp add: inf_bias_model_def)
  have cf: "tower_config inf_bias_model = cfg_patch_only"
    "(orig_embeds_params inf_bias_model \<noteq> None) = False"
    by (simp_all add: inf_bias_model_def example_model_def)
  have b: "splice_batch cfg_patch_only False [[[PInf]]] (replicate 256 [PInf])
             [[1, 2]] [[[1], [2]]] = Inr [[[NaN], [NaN]]]"
    by (simp add: splice_batch_def s torch_stack_def)
  have f: "forward inf_bias_model (Some [[1, 2]]) None (Some (DataList [1]))
             = Inr [[[NaN], [NaN]]]"
    using forward_splice_batch [OF e t tr g p pa d] b by (simp only: cf)
  from c d s f show ?thesis by blast
qed

text \<open>
  C3, amended. A sample without a PATCH marker appends exactly one sequence and
  advances the cursor into the graph features by exactly one, in both modes, whatever
  the feature sets and the state of the loop. When every entry of the projected
  placeholder is finite, the appended sequence is the sample's input embeddings, entry
  for entry (the dummy term is 0); when some entry is infinite or not-a-number, every
  entry of the appended sequence is not-a-number.
\<close>

theorem text_only_sample_unchanged:
  assumes "count_eq ids (graph_patch_token cfg) = 0"
  shows "splice_sample cfg protect feats dummy (ids, emb) s =
           Inr (s\<lparr>new_input_embeds := new_input_embeds s
                      @ [if finite_tensor dummy then emb else map (map (\<lambda>x. NaN)) emb],
                  cur_graph_idx := cur_graph_idx s + 1\<rparr>)"
  using assms
  by (simp add: splice_sample_def tensor_sum_scale_0 add_scalar_0 add_scalar_NaN)

theorem text_only_sample_unchanged_witness:
  "count_eq [1, 2] (graph_patch_token cfg_start_end) = 0
   \<and> finite_tensor [[5, 6]]
   \<and> splice_sample cfg_start_end False [] [[5, 6]] ([1, 2], [[1], [2]]) init_splice_state =
       Inr \<lparr>new_input_embeds = [[[1], [2]]], cur_graph_idx = 1, cur_new_input_embeds = None\<rparr>"
proof -
  have h: "count_eq [1, 2] (graph_patch_token cfg_start_end) = 0"
    by (simp add: count_eq_def cfg_start_end_def)
  have f: "finite_tensor [[5, 6]]"
    by simp
  from text_only_sample_unchanged [OF h, of False "[]" "[[5, 6]]" "[[1], [2]]" init_splice_state]
    h f
  show ?thesis by (simp add: init_splice_state_def)
qed

section \<open>Patch-only mode\<close>

lemma patch_only_merged:
  assumes "\<not> use_graph_start_end cfg"
    and "cur_graph_idx s < length feats"
    and "0 < length (feats ! cur_graph_idx s)"
    and "torch_where ids (graph_patch_token cfg) = [p..<p + length (feats ! cur_graph_idx s)]"
  shows "splice_sample cfg protect feats dummy (ids, emb) s =
           Inr (s\<lparr>new_input_embeds := new_input_embeds s
                      @ [take p emb @ feats ! cur_graph_idx s
                           @ drop (p + length (feats ! cur_graph_idx s)) emb],
                  cur_graph_idx := cur_graph_idx s + 1,
                  cur_new_input_embeds :=
                    Some (take p emb @ feats ! cur_graph_idx s
                            @ drop (p + length (feats ! cur_graph_idx s)) emb)\<rparr>)"
proof -
  let ?n = "length (feats ! cur_graph_idx s)"
  have cnt: "count_eq ids (graph_patch_token cfg) = ?n"
    using length_torch_where [of ids "graph_patch_token cfg"] assms(4) by simp
  have hd: "index [p..<p + ?n] 0 = Inr p"
    using assms(3) by (simp add: index_def)
  show ?thesis
    using assms(1-3) cnt hd
    by (simp add: splice_sample_def index_def assms(4) arange_def any_ne_same detach_def Let_def)
qed

text \<open>
  C2. A valid patch-only sample: the PATCH markers stand at the positions
  \<open>p, \<dots>, p + n - 1\<close>, where \<open>n > 0\<close> is the size of the feature set under the cursor,
  and the embeddings are as long as the token ids. The merged sequence is as long as
  the input, holds the \<open>n\<close> feature vectors in order at \<open>p, \<dots>, p + n - 1\<close>, and
  equals the input embeddings at every other position; the cursor advances by one.
\<close>

theorem patch_only_splice:
  assumes "\<not> use_graph_start_end cfg"
    and "cur_graph_idx s < length feats"
    and "0 < length (feats ! cur_graph_idx s)"
    and "torch_where ids (graph_patch_token cfg) = [p..<p + length (feats ! cur_graph_idx s)]"
    and "length emb = length ids"
  shows "\<exists>merged.
           splice_sample cfg protect feats dummy (ids, emb) s =
             Inr (s\<lparr>new_input_embeds := new_input_embeds s @ [merged],
                    cur_graph_idx := cur_graph_idx s + 1,
                    cur_new_input_embeds := Some merged\<rparr>)
           \<and> length merged = length emb
           \<and> (\<forall>i<p. merged ! i = emb ! i)
           \<and> (\<forall>j<length (feats ! cur_graph_idx s). merged ! (p + j) = feats ! cur_graph_idx s ! j)
           \<and> (\<forall>i. p + length (feats ! cur_graph_idx s) \<le> i \<and> i < length emb
                  \<longrightarrow> merged ! i = emb ! i)"
proof -
  let ?F = "feats ! cur_graph_idx s"
  let ?n = "length ?F"
  let ?m = "take p emb @ ?F @ drop (p + ?n) emb"
  have "p + ?n - 1 \<in> set [p..<p + ?n]"
    using assms(3) by (cases "feats ! cur_graph_idx s") simp_all
  then have "p + ?n - 1 \<in> set (torch_where ids (graph_patch_token cfg))"
    using assms(4) by simp
  then have "p + ?n - 1 < length ids"
    using torch_where_bound by blast
  with assms(3,5) have bound: "p + ?n \<le> length emb" by simp
  have len: "length ?m = length emb" using bound by simp
  have pre: "\<forall>i<p. ?m ! i = emb ! i"
    using bound by (simp add: nth_append)
  have mid: "\<forall>j<?n. ?m ! (p + j) = ?F ! j"
    using bound by (simp add: nth_append)
  have post: "\<forall>i. p + ?n \<le> i \<and> i < length emb \<longrightarrow> ?m ! i = emb ! i"
    using bound by (auto simp: nth_append)
  from patch_only_merged [OF assms(1-4)] len pre mid post show ?thesis
    by blast
qed

theorem patch_only_splice_witness:
  "\<not> use_graph_start_end cfg_patch_only
   \<and> cur_graph_idx init_splice_state < length [[[10], [20 :: fl]]]
   \<and> 0 < length ([[[10], [20 :: fl]]] ! cur_graph_idx init_splice_state)
   \<and> torch_where [1, 7, 7, 2] (graph_patch_token cfg_patch_only) =
       [1..<1 + length ([[[10], [20 :: fl]]] ! cur_graph_idx init_splice_state)]
   \<and> length [[1], [2], [3], [4 :: fl]] = length [1, 7, 7, 2 :: int]
   \<and> splice_sample cfg_patch_only False [[[10], [20]]] [[5]]
         ([1, 7, 7, 2], [[1], [2], [3], [4]]) init_splice_state =
       Inr \<lparr>new_input_embeds = [[[1], [10], [20], [4]]], cur_graph_idx = 1,
            cur_new_input_embeds = Some [[1], [10], [20], [4]]\<rparr>"
proof -
  have h1: "\<not> use_graph_start_end cfg_patch_only"
    by (simp add: cfg_patch_only_def)
  have h2: "cur_graph_idx init_splice_state < length [[[10], [20 :: fl]]]"
    by (simp add: init_splice_state_def)
  have h3: "0 < length ([[[10], [20 :: fl]]] ! cur_graph_idx init_splice_state)"
    by (simp add: init_splice_state_def)
  have h4: "torch_where [1, 7, 7, 2] (graph_patch_token cfg_patch_only) =
              [1..<1 + length ([[[10], [20 :: fl]]] ! cur_graph_idx init_splice_state)]"
    by (simp add: torch_where_def cfg_patch_only_def init_splice_state_def upt_rec)
  have h5: "length [[1], [2], [3], [4 :: fl]] = length [1, 7, 7, 2 :: int]"
    by simp
  from patch_only_splice [OF h1 h2 h3 h4 h5, of False "[[5]]"]
  obtain merged where
    m: "splice_sample cfg_patch_only False [[[10], [20]]] [[5]]
          ([1, 7, 7, 2], [[1], [2], [3], [4]]) init_splice_state =
        Inr (init_splice_state\<lparr>new_input_embeds := new_input_embeds init_splice_state @ [merged],
               cur_graph_idx := cur_graph_idx init_splice_state + 1,
               cur_new_input_embeds := Some merged\<rparr>)"
    and l: "length merged = 4"
    and a: "\<forall>i<1. merged ! i = [[1], [2], [3], [4]] ! i"
    and b: "\<forall>j<2. merged ! (1 + j) = [[[10], [20]]] ! 0 ! j"
    and c: "\<forall>i. 3 \<le> i \<and> i < 4 \<longrightarrow> merged ! i = [[1], [2], [3], [4]] ! i"
    by (auto simp: init_splice_state_def)
  have "merged ! 0 = [1]" using a by simp
  moreover have "merged ! 1 = [10]" using b [rule_format, of 0] by simp
  moreover have "merged ! 2 = [20]" using b [rule_format, of 1] by (simp add: numeral_2_eq_2)
  moreover have "merged ! 3 = [4]" using c [rule_format, of 3] by simp
  ultimately have "merged = [[1], [10], [20], [4]]"
    using l by (intro nth_equalityI) (auto simp: less_Suc_eq numeral_eq_Suc)
  with m h1 h2 h3 h4 h5 show ?thesis
    by (simp add: init_splice_state_def)
qed

text \<open>
  C6. Patch-only mode, a sample with at least one PATCH marker and a feature set
  under the cursor. If the number of PATCH markers differs from the size of that
  feature set, the sample raises the ValueError on the count; if the count matches
  (the code checks it first) and the PATCH positions are not one contiguous ascending
  run, it raises the ValueError on consecutiveness. In both cases the exception is the
  result of the whole batch, whatever samples came before (\<open>pre\<close>) and would come
  after (\<open>rest\<close>): no merged output is produced.
\<close>

theorem patch_only_validation:
  assumes "\<not> use_graph_start_end cfg"
    and "count_eq ids (graph_patch_token cfg) \<noteq> 0"
    and "cur_graph_idx s < length feats"
    and "zip idss embss = pre @ (ids, emb) # rest"
    and "splice_loop cfg protect feats dummy pre init_splice_state = Inr s"
  shows "(count_eq ids (graph_patch_token cfg) \<noteq> length (feats ! cur_graph_idx s) \<longrightarrow>
            splice_sample cfg protect feats dummy (ids, emb) s = Inl (ValueError msg_patch_count)
            \<and> splice_batch cfg protect feats dummy idss embss = Inl (ValueError msg_patch_count))
       \<and> (count_eq ids (graph_patch_token cfg) = length (feats ! cur_graph_idx s)
            \<and> \<not> contiguous (torch_where ids (graph_patch_token cfg)) \<longrightarrow>
            splice_sample cfg protect feats dummy (ids, emb) s = Inl (ValueError msg_consecutive)
            \<and> splice_batch cfg protect feats dummy idss embss = Inl (ValueError msg_consecutive))"
proof (intro conjI impI)
  assume ne: "count_eq ids (graph_patch_token cfg) \<noteq> length (feats ! cur_graph_idx s)"
  show a: "splice_sample cfg protect feats dummy (ids, emb) s = Inl (ValueError msg_patch_count)"
    using assms(1-3) ne by (simp add: splice_sample_def index_def)
  show "splice_batch cfg protect feats dummy idss embss = Inl (ValueError msg_patch_count)"
    by (rule splice_batch_abort [OF assms(4,5) a])
next
  assume h: "count_eq ids (graph_patch_token cfg) = length (feats ! cur_graph_idx s)
              \<and> \<not> contiguous (torch_where ids (graph_patch_token cfg))"
  let ?w = "torch_where ids (graph_patch_token cfg)"
  let ?n = "length (feats ! cur_graph_idx s)"
  have len: "length ?w = ?n" using h length_torch_where by simp
  with assms(2) h obtain q qs where w: "?w = q # qs"
    by (cases ?w) auto
  have "?w \<noteq> [q..<q + ?n]" using h w len [symmetric] by (simp add: contiguous_def)
  then have ne: "any_ne ?w (arange q (q + ?n))"
    using len by (simp add: any_ne_iff arange_def)
  show b: "splice_sample cfg protect feats dummy (ids, emb) s = Inl (ValueError msg_consecutive)"
    using assms(1-3) h ne w by (simp add: splice_sample_def index_def Let_def)
  show "splice_batch cfg protect feats dummy idss embss = Inl (ValueError msg_consecutive)"
    by (rule splice_batch_abort [OF assms(4,5) b])
qed

theorem patch_only_validation_witness:
  "\<not> use_graph_start_end cfg_patch_only
   \<and> count_eq [7, 1, 7] (graph_patch_token cfg_patch_only) \<noteq> 0
   \<and> cur_graph_idx init_splice_state < length [[[10], [20 :: fl]]]
   \<and> zip [[7, 1, 7 :: int]] [[[1], [2], [3 :: fl]]] = [] @ ([7, 1, 7], [[1], [2], [3]]) # []
   \<and> splice_loop cfg_patch_only False [[[10], [20]]] [[5]] [] init_splice_state
       = Inr init_splice_state
   \<and> count_eq [7, 1, 7] (graph_patch_token cfg_patch_only)
       = length ([[[10], [20 :: fl]]] ! cur_graph_idx init_splice_state)
   \<and> \<not> contiguous (torch_where [7, 1, 7] (graph_patch_token cfg_patch_only))
   \<and> splice_batch cfg_patch_only False [[[10], [20]]] [[5]] [[7, 1, 7]] [[[1], [2], [3]]]
       = Inl (ValueError msg_consecutive)
   \<and> count_eq [7, 1, 7] (graph_patch_token cfg_patch_only)
       \<noteq> length ([[[10 :: fl]]] ! cur_graph_idx init_splice_state)
   \<and> splice_batch cfg_patch_only False [[[10]]] [[5]] [[7, 1, 7]] [[[1], [2], [3]]]
       = Inl (ValueError msg_patch_count)"
proof -
  have h1: "\<not> use_graph_start_end cfg_patch_only"
    by (simp add: cfg_patch_only_def)
  have h2: "count_eq [7, 1, 7] (graph_patch_token cfg_patch_only) \<noteq> 0"
    by (simp add: count_eq_def cfg_patch_only_def)
  have h3: "cur_graph_idx init_splice_state < length [[[10], [20 :: fl]]]"
    by (simp add: init_splice_state_def)
  have h3': "cur_graph_idx init_splice_state < length [[[10 :: fl]]]"
    by (simp add: init_splice_state_def)
  have h4: "zip [[7, 1, 7 :: int]] [[[1], [2], [3 :: fl]]] = [] @ ([7, 1, 7], [[1], [2], [3]]) # []"
    by simp
  have h5: "splice_loop cfg_patch_only False [[[10], [20]]] [[5]] [] init_splice_state
              = Inr init_splice_state"
    by simp
  have h5': "splice_loop cfg_patch_only False [[[10]]] [[5]] [] init_splice_state
              = Inr init_splice_state"
    by simp
  have c1: "count_eq [7, 1, 7] (graph_patch_token cfg_patch_only)
              = length ([[[10], [20 :: fl]]] ! cur_graph_idx init_splice_state)"
    by (simp add: count_eq_def cfg_patch_only_def init_splice_state_def)
  have c2: "\<not> contiguous (torch_where [7, 1, 7] (graph_patch_token cfg_patch_only))"
    by (simp add: contiguous_def torch_where_def cfg_patch_only_def upt_rec)
  have c3: "count_eq [7, 1, 7] (graph_patch_token cfg_patch_only)
              \<noteq> length ([[[10 :: fl]]] ! cur_graph_idx init_splice_state)"
    by (simp add: count_eq_def cfg_patch_only_def init_splice_state_def)
  from patch_only_validation [OF h1 h2 h3 h4 h5] c1 c2
  have r1: "splice_batch cfg_patch_only False [[[10], [20]]] [[5]] [[7, 1, 7]] [[[1], [2], [3]]]
              = Inl (ValueError msg_consecutive)"
    by blast
  from patch_only_validation [OF h1 h2 h3' h4 h5'] c3
  have r2: "splice_batch cfg_patch_only False [[[10]]] [[5]] [[7, 1, 7]] [[[1], [2], [3]]]
              = Inl (ValueError msg_patch_count)"
    by blast
  from h1 h2 h3 h4 h5 c1 c2 c3 r1 r2 show ?thesis by blast
qed

section \<open>Start/end mode\<close>

text \<open>The two branches of the concatenation differ in gradient tracking only.\<close>

lemma protect_same_values:
  "detach (take p emb) @ slice p (p + 1) emb @ F @ slice (p + n + 1) (p + n + 2) emb
     @ detach (drop (p + n + 2) emb)
   = take (p + 1) emb @ F @ drop (p + n + 1) emb"
proof -
  have a: "take p emb @ take 1 (drop p emb) = take (p + 1) emb"
    using take_add [of p 1 emb] by simp
  have "take 1 (drop (p + n + 1) emb) @ drop 1 (drop (p + n + 1) emb) = drop (p + n + 1) emb"
    by (rule append_take_drop_id)
  then have b: "take 1 (drop (p + n + 1) emb) @ drop (p + n + 2) emb = drop (p + n + 1) emb"
    by (simp add: add.commute)
  have "detach (take p emb) @ slice p (p + 1) emb @ F @ slice (p + n + 1) (p + n + 2) emb
          @ detach (drop (p + n + 2) emb)
        = (take p emb @ take 1 (drop p emb)) @ F
          @ (take 1 (drop (p + n + 1) emb) @ drop (p + n + 2) emb)"
    by (simp add: detach_def slice_def)
  then show ?thesis by (simp only: a b)
qed

lemma start_loop_Cons:
  "start_loop cfg protect feats ids emb (p # ps) (idx, cur) =
     (case index feats idx of
        Inl e \<Rightarrow> Inl e
      | Inr F \<Rightarrow>
          (case index ids (p + length F + 1) of
             Inl e \<Rightarrow> Inl e
           | Inr tok \<Rightarrow>
               if tok \<noteq> graph_end_token cfg then Inl (ValueError msg_end_follows)
               else start_loop cfg protect feats ids emb ps
                      (idx + 1, Some (take (p + 1) emb @ F @ drop (p + length F + 1) emb))))"
  by (simp only: start_loop.simps Let_def protect_same_values if_cancel)

text \<open>
  When the token after some START's patch run exists and is not END, and every lookup
  up to that START is in range, the loop raises the ValueError.
\<close>

lemma start_loop_end_missing:
  assumes "k < length ps"
    and "\<forall>j\<le>k. idx + j < length feats \<and> ps ! j + length (feats ! (idx + j)) + 1 < length ids"
    and "ids ! (ps ! k + length (feats ! (idx + k)) + 1) \<noteq> graph_end_token cfg"
  shows "start_loop cfg protect feats ids emb ps (idx, cur) = Inl (ValueError msg_end_follows)"
  using assms
proof (induction ps arbitrary: k idx cur)
  case Nil
  then show ?case by simp
next
  case (Cons p ps)
  from Cons.prems(2) [rule_format, of 0]
  have r0: "idx < length feats" "p + length (feats ! idx) + 1 < length ids"
    by simp_all
  show ?case
  proof (cases "ids ! (p + length (feats ! idx) + 1) = graph_end_token cfg")
    case False
    then show ?thesis using r0 by (simp add: index_def)
  next
    case True
    with Cons.prems(3) obtain k' where k: "k = Suc k'"
      by (cases k) auto
    have r: "\<forall>j\<le>k'. (idx + 1) + j < length feats
               \<and> ps ! j + length (feats ! ((idx + 1) + j)) + 1 < length ids"
    proof (intro allI impI)
      fix j assume "j \<le> k'"
      then have "Suc j \<le> k" using k by simp
      from Cons.prems(2) [rule_format, OF this]
      show "(idx + 1) + j < length feats
              \<and> ps ! j + length (feats ! ((idx + 1) + j)) + 1 < length ids"
        by simp
    qed
    have t: "ids ! (ps ! k' + length (feats ! ((idx + 1) + k')) + 1) \<noteq> graph_end_token cfg"
      using Cons.prems(3) k by simp
    have "k' < length ps" using Cons.prems(1) k by simp
    from Cons.IH [OF this r t]
    show ?thesis using r0 True by (simp add: index_def Let_def)
  qed
qed

text \<open>
  Whatever happens at the earlier START positions, a START whose feature set exists
  and whose offset holds a token other than END makes the loop fail.
\<close>

lemma start_loop_fails:
  assumes "k < length ps"
    and "idx + k < length feats"
    and "ps ! k + length (feats ! (idx + k)) + 1 < length ids"
    and "ids ! (ps ! k + length (feats ! (idx + k)) + 1) \<noteq> graph_end_token cfg"
  shows "\<exists>e. start_loop cfg protect feats ids emb ps (idx, cur) = Inl e"
  using assms
proof (induction ps arbitrary: k idx cur)
  case Nil
  then show ?case by simp
next
  case (Cons p ps)
  show ?case
  proof (cases k)
    case 0
    with Cons.prems show ?thesis by (simp add: index_def)
  next
    case (Suc k')
    have "\<exists>e. start_loop cfg protect feats ids emb ps (idx + 1, c) = Inl e" for c
      by (rule Cons.IH [of k']) (use Cons.prems Suc in simp_all)
    then show ?thesis
      by (auto simp: index_def Let_def)
  qed
qed

text \<open>
  On a sample whose START positions all pass the check, the loop consumes one feature
  set per START, and the sequence it leaves is built from the input embeddings and the
  feature set of the last START alone.
\<close>

lemma start_loop_valid:
  assumes "\<forall>j<length ps. idx + j < length feats
              \<and> ps ! j + length (feats ! (idx + j)) + 1 < length ids
              \<and> ids ! (ps ! j + length (feats ! (idx + j)) + 1) = graph_end_token cfg"
  shows "start_loop cfg protect feats ids emb ps (idx, cur) =
           Inr (idx + length ps,
                if ps = [] then cur
                else Some (take (last ps + 1) emb @ feats ! (idx + length ps - 1)
                             @ drop (last ps + length (feats ! (idx + length ps - 1)) + 1) emb))"
  using assms
proof (induction ps arbitrary: idx cur)
  case Nil
  show ?case by simp
next
  case (Cons p ps)
  from Cons.prems [rule_format, of 0]
  have r0: "idx < length feats" "p + length (feats ! idx) + 1 < length ids"
    "ids ! (p + length (feats ! idx) + 1) = graph_end_token cfg"
    by simp_all
  have r: "\<forall>j<length ps. (idx + 1) + j < length feats
             \<and> ps ! j + length (feats ! ((idx + 1) + j)) + 1 < length ids
             \<and> ids ! (ps ! j + length (feats ! ((idx + 1) + j)) + 1) = graph_end_token cfg"
  proof (intro allI impI)
    fix j assume "j < length ps"
    then have "Suc j < length (p # ps)" by simp
    from Cons.prems [rule_format, OF this]
    show "(idx + 1) + j < length feats
            \<and> ps ! j + length (feats ! ((idx + 1) + j)) + 1 < length ids
            \<and> ids ! (ps ! j + length (feats ! ((idx + 1) + j)) + 1) = graph_end_token cfg"
      by simp
  qed
  note ih = Cons.IH [OF r]
  show ?case
    using r0 by (cases "ps = []") (simp_all add: start_loop_Cons index_def ih [simplified] del: start_loop.simps(2))
qed

text \<open>
  C9. Start/end mode, a sample with at least one PATCH marker, no START and no END
  marker, and a feature set under the cursor: the loop over the START positions runs
  no iteration, and the sample appends the variable \<open>cur_new_input_embeds\<close> as the
  previous samples left it. If no sample has assigned it yet, the call ends in an
  UnboundLocalError; otherwise the previous sample's merged sequence is appended in
  place of this sample's embeddings, and the cursor does not advance.
\<close>

theorem start_end_no_start_unbound:
  assumes "use_graph_start_end cfg"
    and "count_eq ids (graph_patch_token cfg) \<noteq> 0"
    and "count_eq ids (graph_start_token cfg) = 0"
    and "count_eq ids (graph_end_token cfg) = 0"
    and "cur_graph_idx s < length feats"
  shows "splice_sample cfg protect feats dummy (ids, emb) s =
           (case cur_new_input_embeds s of
              None \<Rightarrow> Inl UnboundLocalError
            | Some prev \<Rightarrow> Inr (s\<lparr>new_input_embeds := new_input_embeds s @ [prev]\<rparr>))"
  using assms
  by (simp add: splice_sample_def index_def torch_where_Nil split: option.splits)

theorem start_end_no_start_unbound_witness:
  "use_graph_start_end cfg_start_end
   \<and> count_eq [1, 7, 2] (graph_patch_token cfg_start_end) \<noteq> 0
   \<and> count_eq [1, 7, 2] (graph_start_token cfg_start_end) = 0
   \<and> count_eq [1, 7, 2] (graph_end_token cfg_start_end) = 0
   \<and> cur_graph_idx init_splice_state < length [[[10 :: fl]]]
   \<and> cur_graph_idx state_after_one < length [[[10 :: fl]], [[20]]]
   \<and> splice_sample cfg_start_end False [[[10]]] [[5]] ([1, 7, 2], [[1], [2], [3]])
         init_splice_state = Inl UnboundLocalError
   \<and> splice_sample cfg_start_end False [[[10]], [[20]]] [[5]] ([1, 7, 2], [[1], [2], [3]])
         state_after_one =
       Inr \<lparr>new_input_embeds = [[[4], [10], [6]], [[4], [10], [6]]], cur_graph_idx = 1,
            cur_new_input_embeds = Some [[4], [10], [6]]\<rparr>"
proof -
  have h1: "use_graph_start_end cfg_start_end"
    by (simp add: cfg_start_end_def)
  have h2: "count_eq [1, 7, 2] (graph_patch_token cfg_start_end) \<noteq> 0"
    by (simp add: count_eq_def cfg_start_end_def)
  have h3: "count_eq [1, 7, 2] (graph_start_token cfg_start_end) = 0"
    by (simp add: count_eq_def cfg_start_end_def)
  have h4: "count_eq [1, 7, 2] (graph_end_token cfg_start_end) = 0"
    by (simp add: count_eq_def cfg_start_end_def)
  have h5: "cur_graph_idx init_splice_state < length [[[10 :: fl]]]"
    by (simp add: init_splice_state_def)
  have h5': "cur_graph_idx state_after_one < length [[[10 :: fl]], [[20]]]"
    by (simp add: state_after_one_def)
  from start_end_no_start_unbound [OF h1 h2 h3 h4 h5, of False "[[5]]" "[[1], [2], [3]]"]
  have r1: "splice_sample cfg_start_end False [[[10]]] [[5]] ([1, 7, 2], [[1], [2], [3]])
              init_splice_state = Inl UnboundLocalError"
    by (simp add: init_splice_state_def)
  from start_end_no_start_unbound [OF h1 h2 h3 h4 h5', of False "[[5]]" "[[1], [2], [3]]"]
  have r2: "splice_sample cfg_start_end False [[[10]], [[20]]] [[5]] ([1, 7, 2], [[1], [2], [3]])
              state_after_one =
            Inr \<lparr>new_input_embeds = [[[4], [10], [6]], [[4], [10], [6]]], cur_graph_idx = 1,
                 cur_new_input_embeds = Some [[4], [10], [6]]\<rparr>"
    by (simp add: state_after_one_def)
  from h1 h2 h3 h4 h5 h5' r1 r2 show ?thesis by blast
qed

text \<open>
  C5, as stated, fails: in start/end mode a sample without a PATCH marker takes the
  text-only branch before any START or END marker is counted. The sample \<open>[8, 1]\<close>
  has one START and no END marker and is passed through without an exception.
\<close>

theorem start_end_count_unchecked_without_patch:
  "use_graph_start_end cfg_start_end
   \<and> count_eq [8, 1] (graph_start_token cfg_start_end) = 1
   \<and> count_eq [8, 1] (graph_end_token cfg_start_end) = 0
   \<and> splice_sample cfg_start_end False [[[10]]] [[5]] ([8, 1], [[1], [2]]) init_splice_state =
       Inr \<lparr>new_input_embeds = [[[1], [2]]], cur_graph_idx = 1, cur_new_input_embeds = None\<rparr>
   \<and> splice_batch cfg_start_end False [[[10]]] [[5]] [[8, 1]] [[[1], [2]]] = Inr [[[1], [2]]]"
  by (simp add: splice_batch_def splice_sample_def cfg_start_end_def count_eq_def
      init_splice_state_def tensor_sum_scale_0 add_scalar_0 torch_stack_def)

text \<open>
  C5, amended. Start/end mode, a sample with at least one PATCH marker and a feature
  set under the cursor. If the START and END counts differ, the sample raises the
  ValueError on the counts. If they agree, take the \<open>k\<close>-th START position \<open>p\<close> (in
  ascending order) and the feature set \<open>cur_graph_idx + k\<close>, of size \<open>n\<close>: when that
  feature set exists and position \<open>p + n + 1\<close> holds a token other than END, the
  sample fails; the exception is the ValueError on the END marker when, at every START
  up to the \<open>k\<close>-th, the feature set exists and the offset is inside the sequence
  (otherwise an earlier lookup may raise IndexError first). Every such exception is the
  result of the whole batch: no merged output is produced.
\<close>

theorem start_end_validation:
  assumes "use_graph_start_end cfg"
    and "count_eq ids (graph_patch_token cfg) \<noteq> 0"
    and "cur_graph_idx s < length feats"
    and "zip idss embss = pre @ (ids, emb) # rest"
    and "splice_loop cfg protect feats dummy pre init_splice_state = Inr s"
  shows "(count_eq ids (graph_start_token cfg) \<noteq> count_eq ids (graph_end_token cfg) \<longrightarrow>
            splice_sample cfg protect feats dummy (ids, emb) s
              = Inl (ValueError msg_start_end_count)
            \<and> splice_batch cfg protect feats dummy idss embss
              = Inl (ValueError msg_start_end_count))
       \<and> (count_eq ids (graph_start_token cfg) = count_eq ids (graph_end_token cfg) \<longrightarrow>
            (\<forall>k<length (torch_where ids (graph_start_token cfg)).
               cur_graph_idx s + k < length feats
               \<and> torch_where ids (graph_start_token cfg) ! k
                   + length (feats ! (cur_graph_idx s + k)) + 1 < length ids
               \<and> ids ! (torch_where ids (graph_start_token cfg) ! k
                         + length (feats ! (cur_graph_idx s + k)) + 1) \<noteq> graph_end_token cfg
               \<longrightarrow>
                 (\<exists>e. splice_sample cfg protect feats dummy (ids, emb) s = Inl e
                       \<and> splice_batch cfg protect feats dummy idss embss = Inl e)
                 \<and> ((\<forall>j\<le>k. cur_graph_idx s + j < length feats
                            \<and> torch_where ids (graph_start_token cfg) ! j
                                + length (feats ! (cur_graph_idx s + j)) + 1 < length ids)
                      \<longrightarrow> splice_sample cfg protect feats dummy (ids, emb) s
                            = Inl (ValueError msg_end_follows)
                          \<and> splice_batch cfg protect feats dummy idss embss
                            = Inl (ValueError msg_end_follows))))"
proof (intro conjI impI allI)
  assume ne: "count_eq ids (graph_start_token cfg) \<noteq> count_eq ids (graph_end_token cfg)"
  show a: "splice_sample cfg protect feats dummy (ids, emb) s
             = Inl (ValueError msg_start_end_count)"
    using assms(1-3) ne by (simp add: splice_sample_def index_def)
  show "splice_batch cfg protect feats dummy idss embss = Inl (ValueError msg_start_end_count)"
    by (rule splice_batch_abort [OF assms(4,5) a])
next
  fix k
  let ?ps = "torch_where ids (graph_start_token cfg)"
  assume eq: "count_eq ids (graph_start_token cfg) = count_eq ids (graph_end_token cfg)"
    and k: "k < length ?ps"
    and bad: "cur_graph_idx s + k < length feats
               \<and> ?ps ! k + length (feats ! (cur_graph_idx s + k)) + 1 < length ids
               \<and> ids ! (?ps ! k + length (feats ! (cur_graph_idx s + k)) + 1)
                   \<noteq> graph_end_token cfg"
  from start_loop_fails [OF k, of "cur_graph_idx s" feats ids cfg protect emb
      "cur_new_input_embeds s"] bad
  obtain e where e: "start_loop cfg protect feats ids emb ?ps
                       (cur_graph_idx s, cur_new_input_embeds s) = Inl e"
    by blast
  have se: "splice_sample cfg protect feats dummy (ids, emb) s = Inl e"
    using assms(1-3) eq e by (simp add: splice_sample_def index_def)
  from se splice_batch_abort [OF assms(4,5) se]
  show "\<exists>e. splice_sample cfg protect feats dummy (ids, emb) s = Inl e
            \<and> splice_batch cfg protect feats dummy idss embss = Inl e"
    by blast
  {
    assume rng: "\<forall>j\<le>k. cur_graph_idx s + j < length feats
                   \<and> ?ps ! j + length (feats ! (cur_graph_idx s + j)) + 1 < length ids"
    from start_loop_end_missing [OF k rng, of cfg protect emb "cur_new_input_embeds s"] bad
    have l: "start_loop cfg protect feats ids emb ?ps
               (cur_graph_idx s, cur_new_input_embeds s) = Inl (ValueError msg_end_follows)"
      by blast
    show v: "splice_sample cfg protect feats dummy (ids, emb) s
               = Inl (ValueError msg_end_follows)"
      using assms(1-3) eq l by (simp add: splice_sample_def index_def)
    show "splice_batch cfg protect feats dummy idss embss = Inl (ValueError msg_end_follows)"
      by (rule splice_batch_abort [OF assms(4,5) v])
  }
qed

theorem start_end_validation_witness:
  "use_graph_start_end cfg_start_end
   \<and> count_eq [8, 7, 1, 9] (graph_patch_token cfg_start_end) \<noteq> 0
   \<and> cur_graph_idx init_splice_state < length [[[10 :: fl]]]
   \<and> zip [[8, 7, 1, 9 :: int]] [[[1], [2], [3], [4 :: fl]]]
       = [] @ ([8, 7, 1, 9], [[1], [2], [3], [4]]) # []
   \<and> splice_loop cfg_start_end False [[[10]]] [[5]] [] init_splice_state = Inr init_splice_state
   \<and> count_eq [8, 7, 1, 9] (graph_start_token cfg_start_end)
       = count_eq [8, 7, 1, 9] (graph_end_token cfg_start_end)
   \<and> torch_where [8, 7, 1, 9] (graph_start_token cfg_start_end) = [0]
   \<and> [8, 7, 1, 9] ! (0 + length ([[[10 :: fl]]] ! 0) + 1) \<noteq> graph_end_token cfg_start_end
   \<and> splice_batch cfg_start_end False [[[10]]] [[5]] [[8, 7, 1, 9]] [[[1], [2], [3], [4]]]
       = Inl (ValueError msg_end_follows)
   \<and> count_eq [8, 7, 1] (graph_start_token cfg_start_end)
       \<noteq> count_eq [8, 7, 1] (graph_end_token cfg_start_end)
   \<and> splice_batch cfg_start_end False [[[10]]] [[5]] [[8, 7, 1]] [[[1], [2], [3]]]
       = Inl (ValueError msg_start_end_count)"
proof -
  have h1: "use_graph_start_end cfg_start_end"
    by (simp add: cfg_start_end_def)
  have h2: "count_eq [8, 7, 1, 9] (graph_patch_token cfg_start_end) \<noteq> 0"
    by (simp add: count_eq_def cfg_start_end_def)
  have h2': "count_eq [8, 7, 1] (graph_patch_token cfg_start_end) \<noteq> 0"
    by (simp add: count_eq_def cfg_start_end_def)
  have h3: "cur_graph_idx init_splice_state < length [[[10 :: fl]]]"
    by (simp add: init_splice_state_def)
  have h4: "zip [[8, 7, 1, 9 :: int]] [[[1], [2], [3], [4 :: fl]]]
              = [] @ ([8, 7, 1, 9], [[1], [2], [3], [4]]) # []"
    by simp
  have h4': "zip [[8, 7, 1 :: int]] [[[1], [2], [3 :: fl]]]
              = [] @ ([8, 7, 1], [[1], [2], [3]]) # []"
    by simp
  have h5: "splice_loop cfg_start_end False [[[10]]] [[5]] [] init_splice_state
              = Inr init_splice_state"
    by simp
  have c1: "count_eq [8, 7, 1, 9] (graph_start_token cfg_start_end)
              = count_eq [8, 7, 1, 9] (graph_end_token cfg_start_end)"
    by (simp add: count_eq_def cfg_start_end_def)
  have w: "torch_where [8, 7, 1, 9] (graph_start_token cfg_start_end) = [0]"
    by (simp add: torch_where_def cfg_start_end_def upt_rec)
  have bad: "[8, 7, 1, 9] ! (0 + length ([[[10 :: fl]]] ! 0) + 1)
               \<noteq> graph_end_token cfg_start_end"
    by (simp add: cfg_start_end_def)
  have c2: "count_eq [8, 7, 1] (graph_start_token cfg_start_end)
              \<noteq> count_eq [8, 7, 1] (graph_end_token cfg_start_end)"
    by (simp add: count_eq_def cfg_start_end_def)
  from start_end_validation [OF h1 h2 h3 h4 h5] c1
  have "\<forall>k<length (torch_where [8, 7, 1, 9] (graph_start_token cfg_start_end)).
          cur_graph_idx init_splice_state + k < length [[[10 :: fl]]]
          \<and> torch_where [8, 7, 1, 9] (graph_start_token cfg_start_end) ! k
              + length ([[[10 :: fl]]] ! (cur_graph_idx init_splice_state + k)) + 1
              < length [8, 7, 1, 9 :: int]
          \<and> [8, 7, 1, 9] ! (torch_where [8, 7, 1, 9] (graph_start_token cfg_start_end) ! k
                + length ([[[10 :: fl]]] ! (cur_graph_idx init_splice_state + k)) + 1)
              \<noteq> graph_end_token cfg_start_end
          \<longrightarrow>
            (\<exists>e. splice_sample cfg_start_end False [[[10]]] [[5]]
                    ([8, 7, 1, 9], [[1], [2], [3], [4]]) init_splice_state = Inl e
                  \<and> splice_batch cfg_start_end False [[[10]]] [[5]] [[8, 7, 1, 9]]
                      [[[1], [2], [3], [4]]] = Inl e)
            \<and> ((\<forall>j\<le>k. cur_graph_idx init_splice_state + j < length [[[10 :: fl]]]
                       \<and> torch_where [8, 7, 1, 9] (graph_start_token cfg_start_end) ! j
                           + length ([[[10 :: fl]]] ! (cur_graph_idx init_splice_state + j)) + 1
                           < length [8, 7, 1, 9 :: int])
                 \<longrightarrow> splice_sample cfg_start_end False [[[10]]] [[5]]
                       ([8, 7, 1, 9], [[1], [2], [3], [4]]) init_splice_state
                       = Inl (ValueError msg_end_follows)
                     \<and> splice_batch cfg_start_end False [[[10]]] [[5]] [[8, 7, 1, 9]]
                         [[[1], [2], [3], [4]]] = Inl (ValueError msg_end_follows))"
    by blast
  from this [rule_format, of 0] w bad
  have r1: "splice_batch cfg_start_end False [[[10]]] [[5]] [[8, 7, 1, 9]]
              [[[1], [2], [3], [4]]] = Inl (ValueError msg_end_follows)"
    by (simp add: init_splice_state_def)
  from start_end_validation [OF h1 h2' h3 h4' h5] c2
  have r2: "splice_batch cfg_start_end False [[[10]]] [[5]] [[8, 7, 1]] [[[1], [2], [3]]]
              = Inl (ValueError msg_start_end_count)"
    by blast
  from h1 h2 h3 h4 h5 c1 w bad r1 c2 r2 show ?thesis by blast
qed

text \<open>
  On a valid start/end sample the merged sequence is as long as the input, and the
  cursor advances by the number of START markers.
\<close>

lemma start_end_valid_sample:
  assumes "use_graph_start_end cfg"
    and "count_eq ids (graph_patch_token cfg) \<noteq> 0"
    and "count_eq ids (graph_start_token cfg) = count_eq ids (graph_end_token cfg)"
    and "torch_where ids (graph_start_token cfg) \<noteq> []"
    and "\<forall>j<length (torch_where ids (graph_start_token cfg)).
           cur_graph_idx s + j < length feats
           \<and> torch_where ids (graph_start_token cfg) ! j
               + length (feats ! (cur_graph_idx s + j)) + 1 < length ids
           \<and> ids ! (torch_where ids (graph_start_token cfg) ! j
                     + length (feats ! (cur_graph_idx s + j)) + 1) = graph_end_token cfg"
    and "length emb = length ids"
  shows "\<exists>merged.
           splice_sample cfg protect feats dummy (ids, emb) s =
             Inr (s\<lparr>new_input_embeds := new_input_embeds s @ [merged],
                    cur_graph_idx :=
                      cur_graph_idx s + length (torch_where ids (graph_start_token cfg)),
                    cur_new_input_embeds := Some merged\<rparr>)
           \<and> length merged = length emb"
proof -
  let ?ps = "torch_where ids (graph_start_token cfg)"
  let ?F = "feats ! (cur_graph_idx s + length ?ps - 1)"
  let ?m = "take (last ?ps + 1) emb @ ?F @ drop (last ?ps + length ?F + 1) emb"
  have l: "length ?ps - 1 < length ?ps" using assms(4) by (cases ?ps) simp_all
  have e: "cur_graph_idx s + length ?ps - 1 = cur_graph_idx s + (length ?ps - 1)"
    using assms(4) by (cases ?ps) simp_all
  have lst: "last ?ps = ?ps ! (length ?ps - 1)"
    using assms(4) by (rule last_conv_nth)
  from assms(5) [rule_format, OF l]
  have "?ps ! (length ?ps - 1) + length (feats ! (cur_graph_idx s + (length ?ps - 1))) + 1
          < length ids"
    by blast
  then have "last ?ps + length ?F + 1 < length ids"
    by (simp only: e lst)
  then have len: "length ?m = length emb"
    using assms(6) by simp
  have i0: "cur_graph_idx s < length feats"
    using assms(5) [rule_format, of 0] assms(4) by simp
  have "splice_sample cfg protect feats dummy (ids, emb) s =
          Inr (s\<lparr>new_input_embeds := new_input_embeds s @ [?m],
                 cur_graph_idx := cur_graph_idx s + length ?ps,
                 cur_new_input_embeds := Some ?m\<rparr>)"
    using assms(1-4) i0
    by (simp add: splice_sample_def index_def start_loop_valid [OF assms(5)])
  with len show ?thesis by blast
qed

text \<open>
  C1. The sample \<open>[START, PATCH, END, START, PATCH, END]\<close> is a valid start/end sample
  with two graph regions, and two feature sets \<open>[[10]]\<close> and \<open>[[20]]\<close> are supplied.
  The merged sequence has the length of the input and both feature sets are consumed,
  but position 1, the span of the first region, holds the input embedding \<open>[2]\<close> and
  not the feature vector \<open>[10]\<close>: only the last region is filled.
\<close>

theorem start_end_two_regions_only_last_filled:
  "splice_sample cfg_start_end False [[[10]], [[20]]] [[5]]
       ([8, 7, 9, 8, 7, 9], [[1], [2], [3], [4], [5], [6]]) init_splice_state =
     Inr \<lparr>new_input_embeds = [[[1], [2], [3], [4], [20], [6]]], cur_graph_idx = 2,
          cur_new_input_embeds = Some [[1], [2], [3], [4], [20], [6]]\<rparr>
   \<and> splice_batch cfg_start_end False [[[10]], [[20]]] [[5]]
       [[8, 7, 9, 8, 7, 9]] [[[1], [2], [3], [4], [5], [6]]] =
     Inr [[[1], [2], [3], [4], [20], [6]]]"
proof -
  have w: "torch_where [8, 7, 9, 8, 7, 9] 8 = [0, 3]"
    by (simp add: torch_where_def upt_rec)
  have s: "splice_sample cfg_start_end False [[[10]], [[20]]] [[5]]
             ([8, 7, 9, 8, 7, 9], [[1], [2], [3], [4], [5], [6]]) init_splice_state =
           Inr \<lparr>new_input_embeds = [[[1], [2], [3], [4], [20], [6]]], cur_graph_idx = 2,
                cur_new_input_embeds = Some [[1], [2], [3], [4], [20], [6]]\<rparr>"
    by (simp add: splice_sample_def cfg_start_end_def count_eq_def w index_def
        init_splice_state_def)
  then show ?thesis
    by (simp add: splice_batch_def torch_stack_def)
qed

section \<open>The forward pass\<close>

lemma sum_list_replicate_0: "sum_list (replicate n (0 :: fl)) = 0"
  by (induction n) simp_all

lemma linear_apply_replicate:
  "is_finite x \<Longrightarrow>
   linear_apply (nn_Linear d 1 [replicate d 0] [b]) (replicate n (replicate d x))
     = Inr (replicate n [b])"
  by (simp add: linear_apply_def nn_Linear_def dot_def list_all_iff finite_times_0
      sum_list_replicate_0)

lemma dummy_projection_width:
  "in_features l \<noteq> 128 \<Longrightarrow> dummy_projection l = Inl RuntimeError"
  by (simp add: dummy_projection_def linear_apply_def zeros_def list_all_iff)

lemma example_projector:
  "graph_projector (example_model config tr) =
     Some (nn_Linear (graph_hidden_size config) 1 [replicate (graph_hidden_size config) 0] [5])"
  if "has_use_graph_proj config" "hidden_size config = 1"
  using that by (simp add: example_model_def init_graph_projector_def)

lemma forward_dummy_fails:
  assumes "(case inputs_embeds of Some e \<Rightarrow> Inr e | None \<Rightarrow> embed_tokens self ids) = Inr embs"
    and "graph_tower self = Some tower"
    and "shape1 ids \<noteq> 1 \<or> training self"
    and "encode_graphs tower gd = Inr raw"
    and "graph_projector self = Some proj"
    and "project_all proj raw = Inr feats"
    and "dummy_projection proj = Inl err"
  shows "forward self (Some ids) inputs_embeds (Some gd) = Inl err"
  using assms by (auto simp: forward_def split: option.splits)

text \<open>
  In patch-only mode every sample that is processed advances the cursor by one, with or
  without PATCH markers, so the assertion after the loop compares the number of samples
  with the number of feature sets.
\<close>

lemma patch_only_sample_cursor:
  assumes "\<not> use_graph_start_end cfg"
    and "splice_sample cfg protect feats dummy x s = Inr s'"
  shows "cur_graph_idx s' = cur_graph_idx s + 1"
  using assms
  by (auto simp: splice_sample_def Let_def split: if_splits sum.splits)

lemma patch_only_loop_cursor:
  assumes "\<not> use_graph_start_end cfg"
    and "splice_loop cfg protect feats dummy xs s = Inr s'"
  shows "cur_graph_idx s' = cur_graph_idx s + length xs"
  using assms
proof (induction xs arbitrary: s)
  case Nil
  then show ?case by simp
next
  case (Cons x xs)
  from Cons.prems(2) obtain s1 where
    s1: "splice_sample cfg protect feats dummy x s = Inr s1"
    and r: "splice_loop cfg protect feats dummy xs s1 = Inr s'"
    by (auto split: sum.splits)
  from patch_only_sample_cursor [OF Cons.prems(1) s1] Cons.IH [OF Cons.prems(1) r]
  show ?case by simp
qed

text \<open>
  C7. Once the samples of a batch have all been processed (the loop ends in state
  \<open>s\<close>), \<open>forward\<close> compares the cursor with the number of feature sets
  supplied: when they differ the call ends in an AssertionError, and only when they
  agree are the merged sequences stacked.
\<close>

theorem cursor_assertion:
  assumes "(case inputs_embeds of Some e \<Rightarrow> Inr e | None \<Rightarrow> embed_tokens self ids) = Inr embs"
    and "graph_tower self = Some tower"
    and "shape1 ids \<noteq> 1 \<or> training self"
    and "encode_graphs tower gd = Inr raw"
    and "graph_projector self = Some proj"
    and "project_all proj raw = Inr feats"
    and "dummy_projection proj = Inr dummy"
    and "splice_loop (tower_config self) (orig_embeds_params self \<noteq> None) feats dummy
           (zip ids embs) init_splice_state = Inr s"
  shows "forward self (Some ids) inputs_embeds (Some gd) =
           (if cur_graph_idx s \<noteq> length feats then Inl AssertionError
            else torch_stack (new_input_embeds s))"
  using assms by (auto simp: forward_def splice_batch_def split: option.splits)

theorem cursor_assertion_witness:
  "(case None of Some e \<Rightarrow> Inr e | None \<Rightarrow> embed_tokens (example_model config128 True) [[1, 2], [3, 4]])
     = Inr [[[1], [2]], [[3], [4]]]
   \<and> shape1 [[1, 2], [3, 4]] \<noteq> 1
   \<and> encode_graphs (\<lambda>n. replicate n (replicate 128 1)) (DataList [1 :: nat])
       = Inr [[replicate 128 1]]
   \<and> project_all (nn_Linear 128 1 [replicate 128 0] [5]) [[replicate 128 1]] = Inr [[[5]]]
   \<and> dummy_projection (nn_Linear 128 1 [replicate 128 0] [5]) = Inr (replicate 256 [5])
   \<and> splice_loop cfg_patch_only False [[[5]]] (replicate 256 [5])
         (zip [[1, 2], [3, 4]] [[[1], [2]], [[3], [4]]]) init_splice_state
       = Inr \<lparr>new_input_embeds = [[[1], [2]], [[3], [4]]], cur_graph_idx = 2,
              cur_new_input_embeds = None\<rparr>
   \<and> forward (example_model config128 True) (Some [[1, 2], [3, 4]]) None (Some (DataList [1]))
       = Inl AssertionError
   \<and> forward (example_model config128 True) (Some [[1, 2]]) None (Some (DataList [1]))
       = Inr [[[1], [2]]]"
proof -
  let ?m = "example_model config128 True"
  let ?p = "nn_Linear 128 1 [replicate 128 0] [5]"
  have t: "graph_tower ?m = Some (\<lambda>n. replicate n (replicate 128 1))"
    by (simp add: example_model_def config128_def)
  have p: "graph_projector ?m = Some ?p"
    using example_projector [of config128 True] by (simp add: config128_def)
  have c: "tower_config ?m = cfg_patch_only" "(orig_embeds_params ?m \<noteq> None) = False"
    by (simp_all add: example_model_def)
  have e2: "(case None of Some e \<Rightarrow> Inr e | None \<Rightarrow> embed_tokens ?m [[1, 2], [3, 4]])
              = Inr [[[1], [2]], [[3], [4]]]"
    by (simp add: example_model_def embed_ids_def)
  have e1: "(case None of Some e \<Rightarrow> Inr e | None \<Rightarrow> embed_tokens ?m [[1, 2]])
              = Inr [[[1], [2]]]"
    by (simp add: example_model_def embed_ids_def)
  have s2: "shape1 [[1, 2], [3, 4]] \<noteq> 1 \<or> training ?m"
    and s1: "shape1 [[1, 2]] \<noteq> 1 \<or> training ?m"
    by (simp_all add: shape1_def)
  have g: "encode_graphs (\<lambda>n. replicate n (replicate 128 1)) (DataList [1 :: nat])
             = Inr [[replicate 128 1]]"
    by (simp add: encode_graphs_def)
  have pa: "project_all ?p [[replicate 128 1]] = Inr [[[5]]]"
    using linear_apply_replicate [of 1 128 5 1] by simp
  have d: "dummy_projection ?p = Inr (replicate 256 [5])"
    using linear_apply_replicate [of 0 128 5 256] by (simp add: dummy_projection_def zeros_def)
  have l2: "splice_loop cfg_patch_only False [[[5]]] (replicate 256 [5])
              (zip [[1, 2], [3, 4]] [[[1], [2]], [[3], [4]]]) init_splice_state
            = Inr \<lparr>new_input_embeds = [[[1], [2]], [[3], [4]]], cur_graph_idx = 2,
                   cur_new_input_embeds = None\<rparr>"
    by (simp add: splice_sample_def cfg_patch_only_def count_eq_def tensor_sum_scale_0
        add_scalar_0 init_splice_state_def)
  have l1: "splice_loop cfg_patch_only False [[[5]]] (replicate 256 [5])
              (zip [[1, 2]] [[[1], [2]]]) init_splice_state
            = Inr \<lparr>new_input_embeds = [[[1], [2]]], cur_graph_idx = 1,
                   cur_new_input_embeds = None\<rparr>"
    by (simp add: splice_sample_def cfg_patch_only_def count_eq_def tensor_sum_scale_0
        add_scalar_0 init_splice_state_def)
  have r2: "forward ?m (Some [[1, 2], [3, 4]]) None (Some (DataList [1])) = Inl AssertionError"
    using cursor_assertion [OF e2 t s2 g p pa d l2 [folded c]] by simp
  have r1: "forward ?m (Some [[1, 2]]) None (Some (DataList [1])) = Inr [[[1], [2]]]"
    using cursor_assertion [OF e1 t s1 g p pa d l1 [folded c]] by (simp add: torch_stack_def)
  from e2 s2 g pa d l2 r2 r1 show ?thesis
    by (simp add: shape1_def)
qed

text \<open>
  C8. The placeholder is \<open>torch.zeros(256, 128)\<close> whatever the configuration says,
  while the projector that \<open>__init__\<close> builds has \<open>in_features = graph_hidden_size\<close>.
  For every configuration with \<open>graph_hidden_size \<noteq> 128\<close>, a call that reaches the
  splicing path and whose graph features pass through the projector ends in a
  RuntimeError at the projection of the placeholder.
\<close>

theorem dummy_width_hard_coded:
  assumes "(case inputs_embeds of Some e \<Rightarrow> Inr e | None \<Rightarrow> embed_tokens self ids) = Inr embs"
    and "graph_tower self = Some tower"
    and "shape1 ids \<noteq> 1 \<or> training self"
    and "encode_graphs tower gd = Inr raw"
    and "graph_projector self = init_graph_projector config W b"
    and "has_use_graph_proj config"
    and "graph_hidden_size config \<noteq> 128"
    and "project_all (nn_Linear (graph_hidden_size config) (hidden_size config) W b) raw
           = Inr feats"
  shows "forward self (Some ids) inputs_embeds (Some gd) = Inl RuntimeError"
proof -
  let ?p = "nn_Linear (graph_hidden_size config) (hidden_size config) W b"
  have p: "graph_projector self = Some ?p"
    using assms(5,6) by (simp add: init_graph_projector_def)
  have d: "dummy_projection ?p = Inl RuntimeError"
    by (rule dummy_projection_width) (simp add: nn_Linear_def assms(7))
  show ?thesis
    by (rule forward_dummy_fails [OF assms(1-4) p assms(8) d])
qed

text \<open>
  With \<open>graph_hidden_size = 64\<close>: the graph features (64 wide) are projected, the
  placeholder (128 wide) is not, and \<open>forward\<close> fails on a batch of one text-only
  sample and one graph of two nodes.
\<close>

theorem dummy_width_hard_coded_witness:
  "(case None of Some e \<Rightarrow> Inr e | None \<Rightarrow> embed_tokens (example_model config64 True) [[1, 2]])
     = Inr [[[1], [2]]]
   \<and> training (example_model config64 True)
   \<and> encode_graphs (\<lambda>n. replicate n (replicate 64 1)) (DataList [2 :: nat])
       = Inr [replicate 2 (replicate 64 1)]
   \<and> graph_projector (example_model config64 True)
       = init_graph_projector config64 [replicate 64 0] [5]
   \<and> has_use_graph_proj config64
   \<and> graph_hidden_size config64 = 64
   \<and> project_all (nn_Linear (graph_hidden_size config64) (hidden_size config64)
         [replicate 64 0] [5]) [replicate 2 (replicate 64 1)] = Inr [[[5], [5]]]
   \<and> forward (example_model config64 True) (Some [[1, 2]]) None (Some (DataList [2]))
       = Inl RuntimeError"
proof -
  let ?m = "example_model config64 True"
  have e: "(case None of Some e \<Rightarrow> Inr e | None \<Rightarrow> embed_tokens ?m [[1, 2]])
             = Inr [[[1], [2]]]"
    by (simp add: example_model_def embed_ids_def)
  have t: "graph_tower ?m = Some (\<lambda>n. replicate n (replicate 64 1))"
    by (simp add: example_model_def config64_def)
  have tr: "training ?m"
    by (simp add: example_model_def)
  then have tr': "shape1 [[1, 2]] \<noteq> 1 \<or> training ?m"
    by simp
  have g: "encode_graphs (\<lambda>n. replicate n (replicate 64 1)) (DataList [2 :: nat])
             = Inr [replicate 2 (replicate 64 1)]"
    by (simp add: encode_graphs_def)
  have p: "graph_projector ?m = init_graph_projector config64 [replicate 64 0] [5]"
    by (simp add: example_model_def config64_def)
  have u: "has_use_graph_proj config64"
    by (simp add: config64_def)
  have w: "graph_hidden_size config64 = 64"
    by (simp add: config64_def)
  then have w': "graph_hidden_size config64 \<noteq> 128"
    by simp
  have pa: "project_all (nn_Linear (graph_hidden_size config64) (hidden_size config64)
              [replicate 64 0] [5]) [replicate 2 (replicate 64 1)] = Inr [[[5], [5]]]"
    using linear_apply_replicate [of 1 64 5 2] by (simp add: numeral_2_eq_2 config64_def)
  have f: "forward ?m (Some [[1, 2]]) None (Some (DataList [2])) = Inl RuntimeError"
    by (rule dummy_width_hard_coded [OF e t tr' g p u w' pa])
  from e tr g p u w pa f show ?thesis
    by blast
qed

text \<open>
  C10. Input ids of sequence length 1 and a model that is not training: \<open>forward\<close>
  hands the decoder the raw embeddings (those supplied, or else those of the ids),
  whatever graph data is passed. The right-hand side mentions neither the encoder nor
  the projector nor the graph data, and the only exception possible is the token
  embedding's own.
\<close>

theorem single_token_inference_skips_splicing:
  assumes "shape1 ids = 1"
    and "\<not> training self"
  shows "forward self (Some ids) inputs_embeds graph_data =
           (case inputs_embeds of Some e \<Rightarrow> Inr e | None \<Rightarrow> embed_tokens self ids)"
  using assms by (simp add: forward_def split: option.splits sum.splits)

theorem single_token_inference_skips_splicing_witness:
  "shape1 [[7]] = 1
   \<and> \<not> training (example_model config64 False)
   \<and> forward (example_model config64 False) (Some [[7]]) None (Some (DataList [3]))
       = Inr [[[7]]]
   \<and> forward (example_model config64 False) (Some [[7]]) (Some [[[2]]]) (Some NotAList)
       = Inr [[[2]]]"
proof -
  have h1: "shape1 [[7]] = 1"
    by (simp add: shape1_def)
  have h2: "\<not> training (example_model config64 False)"
    by (simp add: example_model_def)
  have e: "embed_tokens (example_model config64 False) [[7]] = Inr [[[7]]]"
    by (simp add: example_model_def embed_ids_def)
  from single_token_inference_skips_splicing [OF h1 h2, of None "Some (DataList [3])"] e
  have r1: "forward (example_model config64 False) (Some [[7]]) None (Some (DataList [3]))
              = Inr [[[7]]]"
    by simp
  from single_token_inference_skips_splicing [OF h1 h2, of "Some [[[2]]]" "Some NotAList"]
  have r2: "forward (example_model config64 False) (Some [[7]]) (Some [[[2]]]) (Some NotAList)
              = Inr [[[2]]]"
    by simp
  from h1 h2 r1 r2 show ?thesis by blast
qed

section \<open>The token registrar\<close>

lemma length_resize_token_embeddings [simp]:
  "length (resize_token_embeddings fresh tbl n) = n"
  by (simp add: resize_token_embeddings_def)

lemma resize_grow:
  "length tbl = m \<Longrightarrow>
   resize_token_embeddings fresh tbl (m + k) = tbl @ map fresh [m..<m + k]"
  by (simp add: resize_token_embeddings_def)

lemma mean_init_length:
  assumes "length tbl = n"
  shows "mean_init mean k tbl
           = take (n - k) tbl @ replicate (min k n) (mean (take (n - k) tbl))"
proof -
  have a: "length (take (n - k) tbl) = n - k"
    using assms by simp
  have b: "n - (n - k) = min k n"
    by arith
  show ?thesis
    by (simp only: mean_init_def Let_def assms a b)
qed

lemma mean_init_appended:
  "length new = k \<Longrightarrow> mean_init mean k (old @ new) = old @ replicate k (mean old)"
  by (simp add: mean_init_def)

lemma mean_dim0_examples:
  "mean_dim0 [[0], [2]] = [1]" "mean_dim0 [[4], [8]] = [6]"
  "mean_dim0 [[0], [2], [10]] = [4]" "mean_dim0 [[4], [8], [30]] = [14]"
  by (simp_all add: mean_dim0_def)

lemma list_tokenizer_examples:
  "add_tokens list_tokenizer [DEFAULT_GRAPH_PATCH_TOKEN] vocab0 = ([''a'', ''b'', ''<g_patch>''], 1)"
  "add_tokens list_tokenizer [DEFAULT_G_START_TOKEN, DEFAULT_G_END_TOKEN]
     [''a'', ''b'', ''<g_patch>'']
   = ([''a'', ''b'', ''<g_patch>'', ''<g_start>'', ''<g_end>''], 2)"
  "len list_tokenizer tk = length tk"
  "convert_tokens_to_ids list_tokenizer [''a'', ''b'', ''<g_patch>''] DEFAULT_GRAPH_PATCH_TOKEN = 2"
  "convert_tokens_to_ids list_tokenizer [''a'', ''b'', ''<g_patch>'', ''<g_start>'', ''<g_end>'']
     DEFAULT_GRAPH_PATCH_TOKEN = 2"
  "convert_tokens_to_ids list_tokenizer [''a'', ''b'', ''<g_patch>'', ''<g_start>'', ''<g_end>'']
     DEFAULT_G_START_TOKEN = 3"
  "convert_tokens_to_ids list_tokenizer [''a'', ''b'', ''<g_patch>'', ''<g_start>'', ''<g_end>'']
     DEFAULT_G_END_TOKEN = 4"
  by (simp_all add: list_tokenizer_def vocab0_def token_id_def DEFAULT_GRAPH_PATCH_TOKEN_def
      DEFAULT_G_START_TOKEN_def DEFAULT_G_END_TOKEN_def)

lemma resize_examples:
  "resize_token_embeddings f [a, b] (Suc (Suc (Suc 0))) = [a, b, f (Suc (Suc 0))]"
  "resize_token_embeddings f [a, b, c] (Suc (Suc (Suc (Suc (Suc 0)))))
     = [a, b, c, f (Suc (Suc (Suc 0))), f (Suc (Suc (Suc (Suc 0))))]"
  "resize_token_embeddings f [a, b, c] (Suc (Suc (Suc (Suc 0))))
     = [a, b, c, f (Suc (Suc (Suc 0)))]"
  by (simp_all add: resize_token_embeddings_def upt_rec)

lemma mean_init_examples:
  "mean_init mean 2 [a, b, c, d, e] = [a, b, c, mean [a, b, c], mean [a, b, c]]"
  "mean_init mean 2 [a, b, c, d] = [a, b, mean [a, b], mean [a, b]]"
  by (simp_all add: mean_init_def Let_def eval_nat_numeral)

lemma registrar_example_start_end:
  "initialize_graph_tokenizer list_tokenizer mean_dim0 (\<lambda>i. [10]) (\<lambda>i. [30]) lm0 True vocab0
       False None =
     Inr (\<lparr>input_embeddings = [[0], [2], [10], [4], [4]],
           output_embeddings = [[4], [8], [30], [14], [14]],
           vision_config =
             Some \<lparr>graph_patch_token = 2, graph_start_token = 3, graph_end_token = 4,
                   use_graph_start_end = True\<rparr>,
           lm_orig_embeds_params = None,
           input_requires_grad = False,
           output_requires_grad = True\<rparr>,
          [''a'', ''b'', ''<g_patch>'', ''<g_start>'', ''<g_end>''])"
  by (simp add: initialize_graph_tokenizer_def Let_def lm0_def cfg_patch_only_def
      list_tokenizer_examples resize_examples mean_init_examples mean_dim0_examples)


lemma registrar_example_patch_only:
  "initialize_graph_tokenizer list_tokenizer mean_dim0 (\<lambda>i. [10]) (\<lambda>i. [30]) lm0 False vocab0
       False None =
     Inr (\<lparr>input_embeddings = [[0], [2], [10]],
           output_embeddings = [[4], [8], [30]],
           vision_config =
             Some \<lparr>graph_patch_token = 2, graph_start_token = 8, graph_end_token = 9,
                   use_graph_start_end = False\<rparr>,
           lm_orig_embeds_params = None,
           input_requires_grad = False,
           output_requires_grad = True\<rparr>,
          [''a'', ''b'', ''<g_patch>''])"
  by (simp add: initialize_graph_tokenizer_def Let_def lm0_def cfg_patch_only_def
      list_tokenizer_examples resize_examples)

text \<open>With an adapter checkpoint of two rows the input rows come from the checkpoint.\<close>

lemma registrar_example_checkpoint:
  "initialize_graph_tokenizer list_tokenizer mean_dim0 (\<lambda>i. [10]) (\<lambda>i. [30]) lm0 True vocab0
       False (Some [[7], [9]]) =
     Inr (\<lparr>input_embeddings = [[0], [2], [10], [7], [9]],
           output_embeddings = [[4], [8], [30], [14], [14]],
           vision_config =
             Some \<lparr>graph_patch_token = 2, graph_start_token = 3, graph_end_token = 4,
                   use_graph_start_end = True\<rparr>,
           lm_orig_embeds_params = None,
           input_requires_grad = False,
           output_requires_grad = True\<rparr>,
          [''a'', ''b'', ''<g_patch>'', ''<g_start>'', ''<g_end>''])"
  by (simp add: initialize_graph_tokenizer_def Let_def lm0_def cfg_patch_only_def
      list_tokenizer_examples resize_examples mean_init_examples mean_dim0_examples
      shape_def set_last_def)

text \<open>
  A tokenizer that reports two tokens while its vocabulary, which had START already,
  grows by one: the last two rows are the PATCH row and the END row, and both are set
  to the mean of the two rows before them.
\<close>

lemma reporting_tokenizer_examples:
  "add_tokens reporting_tokenizer [DEFAULT_GRAPH_PATCH_TOKEN] vocab1
     = ([''a'', ''<g_start>'', ''<g_patch>''], 1)"
  "add_tokens reporting_tokenizer [DEFAULT_G_START_TOKEN, DEFAULT_G_END_TOKEN]
     [''a'', ''<g_start>'', ''<g_patch>'']
   = ([''a'', ''<g_start>'', ''<g_patch>'', ''<g_end>''], 2)"
  "len reporting_tokenizer tk = length tk"
  "convert_tokens_to_ids reporting_tokenizer [''a'', ''<g_start>'', ''<g_patch>'', ''<g_end>'']
     DEFAULT_GRAPH_PATCH_TOKEN = 2"
  "convert_tokens_to_ids reporting_tokenizer [''a'', ''<g_start>'', ''<g_patch>'', ''<g_end>'']
     DEFAULT_G_START_TOKEN = 1"
  "convert_tokens_to_ids reporting_tokenizer [''a'', ''<g_start>'', ''<g_patch>'', ''<g_end>'']
     DEFAULT_G_END_TOKEN = 3"
  by (simp_all add: reporting_tokenizer_def vocab1_def token_id_def DEFAULT_GRAPH_PATCH_TOKEN_def
      DEFAULT_G_START_TOKEN_def DEFAULT_G_END_TOKEN_def)

lemma registrar_example_reporting:
  "initialize_graph_tokenizer reporting_tokenizer mean_dim0 (\<lambda>i. [10]) (\<lambda>i. [30]) lm0 True
       vocab1 False None =
     Inr (\<lparr>input_embeddings = [[0], [2], [1], [1]],
           output_embeddings = [[4], [8], [6], [6]],
           vision_config =
             Some \<lparr>graph_patch_token = 2, graph_start_token = 1, graph_end_token = 3,
                   use_graph_start_end = True\<rparr>,
           lm_orig_embeds_params = None,
           input_requires_grad = False,
           output_requires_grad = True\<rparr>,
          [''a'', ''<g_start>'', ''<g_patch>'', ''<g_end>''])"
  by (simp add: initialize_graph_tokenizer_def Let_def lm0_def cfg_patch_only_def
      reporting_tokenizer_examples resize_examples mean_init_examples mean_dim0_examples)

text \<open>
  C4, as stated, fails. Starting from the tables \<open>[[0], [2]]\<close> and \<open>[[4], [8]]\<close>
  (means \<open>[1]\<close> and \<open>[6]\<close>) with fresh rows \<open>[10]\<close> and \<open>[30]\<close>: in start/end mode
  the PATCH row keeps the fresh value and the START and END rows get the mean of the
  three rows before them, the PATCH row included (\<open>[4]\<close> and \<open>[14]\<close>); in patch-only
  mode no row is set to a mean.
\<close>

theorem registrar_patch_row_not_mean:
  "mean_dim0 (input_embeddings lm0) = [1]
   \<and> mean_dim0 (output_embeddings lm0) = [6]
   \<and> initialize_graph_tokenizer list_tokenizer mean_dim0 (\<lambda>i. [10]) (\<lambda>i. [30]) lm0 True vocab0
         False None =
       Inr (\<lparr>input_embeddings = [[0], [2], [10], [4], [4]],
             output_embeddings = [[4], [8], [30], [14], [14]],
             vision_config =
               Some \<lparr>graph_patch_token = 2, graph_start_token = 3, graph_end_token = 4,
                     use_graph_start_end = True\<rparr>,
             lm_orig_embeds_params = None,
             input_requires_grad = False,
             output_requires_grad = True\<rparr>,
            [''a'', ''b'', ''<g_patch>'', ''<g_start>'', ''<g_end>''])
   \<and> initialize_graph_tokenizer list_tokenizer mean_dim0 (\<lambda>i. [10]) (\<lambda>i. [30]) lm0 False vocab0
         False None =
       Inr (\<lparr>input_embeddings = [[0], [2], [10]],
             output_embeddings = [[4], [8], [30]],
             vision_config =
               Some \<lparr>graph_patch_token = 2, graph_start_token = 8, graph_end_token = 9,
                     use_graph_start_end = False\<rparr>,
             lm_orig_embeds_params = None,
             input_requires_grad = False,
             output_requires_grad = True\<rparr>,
            [''a'', ''b'', ''<g_patch>''])"
  using registrar_example_start_end registrar_example_patch_only
  by (simp add: lm0_def mean_dim0_examples)

text \<open>
  C4, amended. \<open>tk1\<close>, \<open>in1\<close>, \<open>out1\<close> are the tokenizer and the two tables after
  the PATCH step; \<open>k\<close> is the number the tokenizer reports for START and END and \<open>n\<close>
  its length afterwards; \<open>in2\<close>, \<open>out2\<close> are the tables resized to \<open>n\<close>.

  Start/end mode with \<open>k > 0\<close>: in the output table, and in the input table when no
  adapter checkpoint is given, the last \<open>k\<close> rows (all rows when \<open>k\<close> exceeds \<open>n\<close>)
  are each set to the mean, as the library's \<open>mean\<close> computes it, of all rows before
  them, and those rows stay as they are. When the tokenizer's length grew by exactly
  \<open>k\<close>, these last rows are the rows added for START and END, and the mean is over the
  whole table of the PATCH step, the PATCH row included and unchanged.

  Patch-only mode: both tables are only resized, no row is set to a mean.
\<close>

theorem registrar_mean_init:
  assumes "initialize_graph_tokenizer tok mean fresh_in fresh_out self use tokenizer tune
             pretrain = Inr (self', tk')"
    and "tk1 = fst (add_tokens tok [DEFAULT_GRAPH_PATCH_TOKEN] tokenizer)"
    and "in1 = resize_token_embeddings fresh_in (input_embeddings self) (len tok tk1)"
    and "out1 = resize_token_embeddings fresh_out (output_embeddings self) (len tok tk1)"
    and "k = snd (add_tokens tok [DEFAULT_G_START_TOKEN, DEFAULT_G_END_TOKEN] tk1)"
    and "n = len tok (fst (add_tokens tok [DEFAULT_G_START_TOKEN, DEFAULT_G_END_TOKEN] tk1))"
    and "in2 = resize_token_embeddings fresh_in in1 n"
    and "out2 = resize_token_embeddings fresh_out out1 n"
  shows "(use \<and> 0 < k \<longrightarrow>
            output_embeddings self'
              = take (n - k) out2 @ replicate (min k n) (mean (take (n - k) out2))
            \<and> (pretrain = None \<longrightarrow>
                 input_embeddings self'
                   = take (n - k) in2 @ replicate (min k n) (mean (take (n - k) in2))))
       \<and> (use \<and> 0 < k \<and> n = len tok tk1 + k \<longrightarrow>
            output_embeddings self' = out1 @ replicate k (mean out1)
            \<and> (pretrain = None \<longrightarrow> input_embeddings self' = in1 @ replicate k (mean in1)))
       \<and> (\<not> use \<longrightarrow> input_embeddings self' = in1 \<and> output_embeddings self' = out1)"
proof -
  obtain vc0 where vc: "vision_config self = Some vc0"
    using assms(1) by (cases "vision_config self") (simp_all add: initialize_graph_tokenizer_def)
  note folds = assms(2) [symmetric] assms(3) [symmetric] assms(4) [symmetric]
    assms(5) [symmetric] assms(6) [symmetric] assms(7) [symmetric] assms(8) [symmetric]
  have out: "output_embeddings self' = mean_init mean k out2" if "use" "0 < k"
    using assms(1) that
    by (auto simp: initialize_graph_tokenizer_def vc Let_def folds
        split: option.splits if_splits)
  have inp: "input_embeddings self' = mean_init mean k in2" if "use" "0 < k" "pretrain = None"
    using assms(1) that
    by (auto simp: initialize_graph_tokenizer_def vc Let_def folds)
  have po: "input_embeddings self' = in1 \<and> output_embeddings self' = out1" if "\<not> use"
    using assms(1) that
    by (auto simp: initialize_graph_tokenizer_def vc Let_def folds)
  have lo: "length out2 = n" and li: "length in2 = n"
    using assms(7,8) by simp_all
  have l1: "length out1 = len tok tk1" "length in1 = len tok tk1"
    using assms(3,4) by simp_all
  have go: "out2 = out1 @ map fresh_out [len tok tk1..<len tok tk1 + k]"
    and gi: "in2 = in1 @ map fresh_in [len tok tk1..<len tok tk1 + k]"
    if "n = len tok tk1 + k"
    using that assms(7,8) resize_grow [OF l1(1)] resize_grow [OF l1(2)] by simp_all
  show ?thesis
  proof (intro conjI impI)
    assume h: "use \<and> 0 < k"
    then show "output_embeddings self'
                 = take (n - k) out2 @ replicate (min k n) (mean (take (n - k) out2))"
      using out mean_init_length [OF lo] by simp
    assume "pretrain = None"
    with h show "input_embeddings self'
                   = take (n - k) in2 @ replicate (min k n) (mean (take (n - k) in2))"
      using inp mean_init_length [OF li] by simp
  next
    assume h: "use \<and> 0 < k \<and> n = len tok tk1 + k"
    then show "output_embeddings self' = out1 @ replicate k (mean out1)"
      using out go by (simp add: mean_init_appended)
    assume "pretrain = None"
    with h show "input_embeddings self' = in1 @ replicate k (mean in1)"
      using inp gi by (simp add: mean_init_appended)
  next
    assume "\<not> use"
    then show "input_embeddings self' = in1" "output_embeddings self' = out1"
      using po by simp_all
  qed
qed

theorem registrar_mean_init_witness:
  "snd (add_tokens list_tokenizer [DEFAULT_G_START_TOKEN, DEFAULT_G_END_TOKEN]
          (fst (add_tokens list_tokenizer [DEFAULT_GRAPH_PATCH_TOKEN] vocab0))) = 2
   \<and> len list_tokenizer (fst (add_tokens list_tokenizer
          [DEFAULT_G_START_TOKEN, DEFAULT_G_END_TOKEN]
          (fst (add_tokens list_tokenizer [DEFAULT_GRAPH_PATCH_TOKEN] vocab0))))
       = len list_tokenizer (fst (add_tokens list_tokenizer [DEFAULT_GRAPH_PATCH_TOKEN] vocab0))
           + 2
   \<and> resize_token_embeddings (\<lambda>i. [10]) (input_embeddings lm0)
         (len list_tokenizer (fst (add_tokens list_tokenizer [DEFAULT_GRAPH_PATCH_TOKEN] vocab0)))
       = [[0], [2], [10]]
   \<and> resize_token_embeddings (\<lambda>i. [30]) (output_embeddings lm0)
         (len list_tokenizer (fst (add_tokens list_tokenizer [DEFAULT_GRAPH_PATCH_TOKEN] vocab0)))
       = [[4], [8], [30]]
   \<and> [[4], [8], [30], [14], [14]] = [[4], [8], [30]] @ replicate 2 (mean_dim0 [[4], [8], [30]])
   \<and> [[0], [2], [10], [4], [4]] = [[0], [2], [10]] @ replicate 2 (mean_dim0 [[0], [2], [10]])
   \<and> snd (add_tokens reporting_tokenizer [DEFAULT_G_START_TOKEN, DEFAULT_G_END_TOKEN]
          (fst (add_tokens reporting_tokenizer [DEFAULT_GRAPH_PATCH_TOKEN] vocab1))) = 2
   \<and> len reporting_tokenizer (fst (add_tokens reporting_tokenizer
          [DEFAULT_G_START_TOKEN, DEFAULT_G_END_TOKEN]
          (fst (add_tokens reporting_tokenizer [DEFAULT_GRAPH_PATCH_TOKEN] vocab1)))) = 4
   \<and> [[4], [8], [6], [6]]
       = take (4 - 2) [[4], [8], [30], [30]]
           @ replicate (min 2 4) (mean_dim0 (take (4 - 2) [[4], [8], [30], [30]]))
   \<and> [[0], [2], [1], [1]]
       = take (4 - 2) [[0], [2], [10], [10]]
           @ replicate (min 2 4) (mean_dim0 (take (4 - 2) [[0], [2], [10], [10]]))
   \<and> map_sum id (\<lambda>r. output_embeddings (fst r))
         (initialize_graph_tokenizer list_tokenizer mean_dim0 (\<lambda>i. [10]) (\<lambda>i. [30]) lm0 True
            vocab0 False (Some [[7], [9]]))
       = Inr ([[4], [8], [30]] @ replicate 2 (mean_dim0 [[4], [8], [30]]))
   \<and> map_sum id (\<lambda>r. (input_embeddings (fst r), output_embeddings (fst r)))
         (initialize_graph_tokenizer list_tokenizer mean_dim0 (\<lambda>i. [10]) (\<lambda>i. [30]) lm0 False
            vocab0 False None)
       = Inr ([[0], [2], [10]], [[4], [8], [30]])"
proof -
  note ev = list_tokenizer_examples reporting_tokenizer_examples resize_examples lm0_def
  have k1: "snd (add_tokens list_tokenizer [DEFAULT_G_START_TOKEN, DEFAULT_G_END_TOKEN]
              (fst (add_tokens list_tokenizer [DEFAULT_GRAPH_PATCH_TOKEN] vocab0))) = 2"
    by (simp add: ev)
  have n1: "len list_tokenizer (fst (add_tokens list_tokenizer
              [DEFAULT_G_START_TOKEN, DEFAULT_G_END_TOKEN]
              (fst (add_tokens list_tokenizer [DEFAULT_GRAPH_PATCH_TOKEN] vocab0))))
            = len list_tokenizer
                (fst (add_tokens list_tokenizer [DEFAULT_GRAPH_PATCH_TOKEN] vocab0)) + 2"
    by (simp add: ev)
  have i1: "resize_token_embeddings (\<lambda>i. [10]) (input_embeddings lm0)
              (len list_tokenizer
                 (fst (add_tokens list_tokenizer [DEFAULT_GRAPH_PATCH_TOKEN] vocab0)))
            = [[0], [2], [10]]"
    by (simp add: ev)
  have o1: "resize_token_embeddings (\<lambda>i. [30]) (output_embeddings lm0)
              (len list_tokenizer
                 (fst (add_tokens list_tokenizer [DEFAULT_GRAPH_PATCH_TOKEN] vocab0)))
            = [[4], [8], [30]]"
    by (simp add: ev)
  from registrar_mean_init [OF registrar_example_start_end refl refl refl refl refl refl refl]
  have "True \<and> 0 < (2 :: nat)
          \<and> len list_tokenizer (fst (add_tokens list_tokenizer
               [DEFAULT_G_START_TOKEN, DEFAULT_G_END_TOKEN]
               (fst (add_tokens list_tokenizer [DEFAULT_GRAPH_PATCH_TOKEN] vocab0))))
             = len list_tokenizer
                 (fst (add_tokens list_tokenizer [DEFAULT_GRAPH_PATCH_TOKEN] vocab0)) + 2
        \<longrightarrow> [[4], [8], [30], [14], [14]]
              = [[4], [8], [30]] @ replicate 2 (mean_dim0 [[4], [8], [30]])
            \<and> [[0], [2], [10], [4], [4]]
              = [[0], [2], [10]] @ replicate 2 (mean_dim0 [[0], [2], [10]])"
    by (simp add: k1 i1 o1)
  with n1 have r1: "[[4], [8], [30], [14], [14]]
                      = [[4], [8], [30]] @ replicate 2 (mean_dim0 [[4], [8], [30]])"
    and r2: "[[0], [2], [10], [4], [4]]
               = [[0], [2], [10]] @ replicate 2 (mean_dim0 [[0], [2], [10]])"
    by simp_all
  have k2: "snd (add_tokens reporting_tokenizer [DEFAULT_G_START_TOKEN, DEFAULT_G_END_TOKEN]
              (fst (add_tokens reporting_tokenizer [DEFAULT_GRAPH_PATCH_TOKEN] vocab1))) = 2"
    by (simp add: ev)
  have n2: "len reporting_tokenizer (fst (add_tokens reporting_tokenizer
              [DEFAULT_G_START_TOKEN, DEFAULT_G_END_TOKEN]
              (fst (add_tokens reporting_tokenizer [DEFAULT_GRAPH_PATCH_TOKEN] vocab1)))) = 4"
    by (simp add: ev)
  have l2: "len reporting_tokenizer
              (fst (add_tokens reporting_tokenizer [DEFAULT_GRAPH_PATCH_TOKEN] vocab1))
            = Suc (Suc (Suc 0))"
    by (simp add: ev)
  have i2: "resize_token_embeddings (\<lambda>i. [10])
              (resize_token_embeddings (\<lambda>i. [10]) (input_embeddings lm0) (Suc (Suc (Suc 0)))) 4
            = [[0], [2], [10], [10]]"
    and o2: "resize_token_embeddings (\<lambda>i. [30])
               (resize_token_embeddings (\<lambda>i. [30]) (output_embeddings lm0) (Suc (Suc (Suc 0)))) 4
             = [[4], [8], [30], [30]]"
    by (simp_all add: resize_token_embeddings_def lm0_def upt_rec eval_nat_numeral)
  from registrar_mean_init [OF registrar_example_reporting refl refl refl refl refl refl refl]
  have "True \<and> 0 < (2 :: nat)
        \<longrightarrow> [[4], [8], [6], [6]]
              = take (4 - 2) [[4], [8], [30], [30]]
                  @ replicate (min 2 4) (mean_dim0 (take (4 - 2) [[4], [8], [30], [30]]))
            \<and> [[0], [2], [1], [1]]
              = take (4 - 2) [[0], [2], [10], [10]]
                  @ replicate (min 2 4) (mean_dim0 (take (4 - 2) [[0], [2], [10], [10]]))"
    by (simp only: k2 n2 l2 i2 o2 causal_lm.simps simp_thms)
  then have r3: "[[4], [8], [6], [6]]
                   = take (4 - 2) [[4], [8], [30], [30]]
                       @ replicate (min 2 4) (mean_dim0 (take (4 - 2) [[4], [8], [30], [30]]))"
    and r4: "[[0], [2], [1], [1]]
               = take (4 - 2) [[0], [2], [10], [10]]
                   @ replicate (min 2 4) (mean_dim0 (take (4 - 2) [[0], [2], [10], [10]]))"
    by simp_all
  from registrar_mean_init [OF registrar_example_checkpoint refl refl refl refl refl refl refl]
  have "True \<and> 0 < (2 :: nat)
          \<and> len list_tokenizer (fst (add_tokens list_tokenizer
               [DEFAULT_G_START_TOKEN, DEFAULT_G_END_TOKEN]
               (fst (add_tokens list_tokenizer [DEFAULT_GRAPH_PATCH_TOKEN] vocab0))))
             = len list_tokenizer
                 (fst (add_tokens list_tokenizer [DEFAULT_GRAPH_PATCH_TOKEN] vocab0)) + 2
        \<longrightarrow> [[4], [8], [30], [14], [14]]
              = [[4], [8], [30]] @ replicate 2 (mean_dim0 [[4], [8], [30]])"
    by (simp add: k1 i1 o1)
  with n1 have "[[4], [8], [30], [14], [14]]
                  = [[4], [8], [30]] @ replicate 2 (mean_dim0 [[4], [8], [30]])"
    by simp
  then have r5: "map_sum id (\<lambda>r. output_embeddings (fst r))
                   (initialize_graph_tokenizer list_tokenizer mean_dim0 (\<lambda>i. [10]) (\<lambda>i. [30])
                      lm0 True vocab0 False (Some [[7], [9]]))
                 = Inr ([[4], [8], [30]] @ replicate 2 (mean_dim0 [[4], [8], [30]]))"
    by (simp add: registrar_example_checkpoint)
  from registrar_mean_init [OF registrar_example_patch_only refl refl refl refl refl refl refl]
  have "[[0], [2], [10]]
          = resize_token_embeddings (\<lambda>i. [10]) (input_embeddings lm0)
              (len list_tokenizer
                 (fst (add_tokens list_tokenizer [DEFAULT_GRAPH_PATCH_TOKEN] vocab0)))
        \<and> [[4], [8], [30]]
          = resize_token_embeddings (\<lambda>i. [30]) (output_embeddings lm0)
              (len list_tokenizer
                 (fst (add_tokens list_tokenizer [DEFAULT_GRAPH_PATCH_TOKEN] vocab0)))"
    by simp
  then have r6: "map_sum id (\<lambda>r. (input_embeddings (fst r), output_embeddings (fst r)))
                   (initialize_graph_tokenizer list_tokenizer mean_dim0 (\<lambda>i. [10]) (\<lambda>i. [30])
                      lm0 False vocab0 False None)
                 = Inr ([[0], [2], [10]], [[4], [8], [30]])"
    by (simp add: registrar_example_patch_only)
  from k1 n1 i1 o1 r1 r2 k2 n2 r3 r4 r5 r6 show ?thesis
    by (intro conjI)
qed

end
